theory Spec2Isabelle
  imports Main "HOL-Library.Word" "HOL-Library.Multiset" "HOL-Library.Product_Lexorder"
begin

section \<open>Errors of the API layer\<close>

text \<open>
  The handlers of \<^verbatim>\<open>server/route/api/v1\<close> return gRPC status errors
  (\<^verbatim>\<open>status.Errorf(code, format, ...)\<close>). A handler that reads a field through a nil
  pointer panics; the panic is an outcome of its own, not a status.
\<close>

datatype Code = Internal | InvalidArgument | PermissionDenied | FailedPrecondition
  | Unauthenticated | NotFound

datatype error = Status Code string | NilPointerDereference

fun code_String :: "Code \<Rightarrow> string" where
  "code_String Internal = ''Internal''"
| "code_String InvalidArgument = ''InvalidArgument''"
| "code_String PermissionDenied = ''PermissionDenied''"
| "code_String FailedPrecondition = ''FailedPrecondition''"
| "code_String Unauthenticated = ''Unauthenticated''"
| "code_String NotFound = ''NotFound''"

text \<open>The text \<^verbatim>\<open>%v\<close> prints for an error value (its \<^verbatim>\<open>Error()\<close>).\<close>

fun error_Error :: "error \<Rightarrow> string" where
  "error_Error (Status c m) = ''rpc error: code = '' @ code_String c @ '' desc = '' @ m"
| "error_Error NilPointerDereference =
     ''runtime error: invalid memory address or nil pointer dereference''"

text \<open>Decimal rendering, as \<^verbatim>\<open>%d\<close> prints an integer.\<close>

function digits :: "nat \<Rightarrow> string" where
  "digits n = (if n < 10 then [''0123456789'' ! n]
               else digits (n div 10) @ [''0123456789'' ! (n mod 10)])"
  by pat_completeness auto
termination
  by (relation "measure (\<lambda>n. n)") auto

declare digits.simps [simp del]

definition fmt_d :: "int \<Rightarrow> string" where
  "fmt_d i = (if i < 0 then ''-'' @ digits (nat (- i)) else digits (nat i))"

section \<open>The store's data\<close>

text \<open>
  \<^verbatim>\<open>store.Role\<close> is a string type with the two constants \<^verbatim>\<open>RoleAdmin\<close> and
  \<^verbatim>\<open>RoleUser\<close>; \<^verbatim>\<open>convertUserRoleFromStore\<close> has a default branch for any other
  value, which is \<open>RoleOther\<close> here.
\<close>

datatype Role = RoleAdmin | RoleUser | RoleOther string

datatype RowStatus = ROW_STATUS_UNSPECIFIED | NORMAL | ARCHIVED

record User =
  ID :: int
  CreatedTs :: int
  UpdatedTs :: int
  RowStatus :: RowStatus
  Email :: string
  Nickname :: string
  PasswordHash :: string
  Role :: Role

text \<open>\<^verbatim>\<open>store.FindUser\<close>: every field is an optional filter (a nil pointer is no filter).\<close>

record FindUser =
  find_ID :: "int option"
  find_RowStatus :: "RowStatus option"
  find_Email :: "string option"
  find_Nickname :: "string option"
  find_Role :: "Role option"

definition FindUser_empty :: FindUser where
  "FindUser_empty = \<lparr>find_ID = None, find_RowStatus = None, find_Email = None,
     find_Nickname = None, find_Role = None\<rparr>"

text \<open>\<^verbatim>\<open>storepb.UserSetting_AccessTokensSetting_AccessToken\<close>\<close>

record UserSetting_AccessToken =
  AccessToken :: string
  Description :: string

text \<open>
  Identity providers. The messages of \<^verbatim>\<open>storepb\<close> and \<^verbatim>\<open>v1pb\<close> have the same
  fields, and the conversion between the two enumerations of the provider type is a numeric
  cast, so one set of types stands for both. A message-typed field is a pointer and can be
  nil: an \<open>option\<close>.
\<close>

datatype IdentityProvider_Type = TYPE_UNSPECIFIED | OAUTH2

record FieldMapping =
  Identifier :: string
  DisplayName :: string

record OAuth2Config =
  ClientId :: string
  ClientSecret :: string
  AuthUrl :: string
  TokenUrl :: string
  UserInfoUrl :: string
  Scopes :: "string list"
  FieldMapping :: "FieldMapping option"

text \<open>The \<^verbatim>\<open>oneof\<close> of \<^verbatim>\<open>IdentityProviderConfig\<close>: OAuth2, or not set.\<close>

datatype IdentityProviderConfig = Config_Oauth2 OAuth2Config | Config_not_set

record IdentityProvider =
  Idp_Id :: string
  Idp_Title :: string
  Idp_Type :: IdentityProvider_Type
  Idp_Config :: "IdentityProviderConfig option"

text \<open>The nil-safe getter \<^verbatim>\<open>(*IdentityProviderConfig).GetOauth2()\<close>.\<close>

fun GetOauth2 :: "IdentityProviderConfig option \<Rightarrow> OAuth2Config option" where
  "GetOauth2 (Some (Config_Oauth2 c)) = Some c"
| "GetOauth2 _ = None"

record GeneralSetting =
  Branding :: string
  CustomStyle :: string

record SecuritySetting =
  DisallowUserRegistration :: bool
  DisallowPasswordAuth :: bool

datatype WorkspaceSettingKey =
    WORKSPACE_SETTING_KEY_UNSPECIFIED
  | WORKSPACE_SETTING_GENERAL
  | WORKSPACE_SETTING_SECURITY
  | WORKSPACE_SETTING_SHORTCUT_RELATED
  | WORKSPACE_SETTING_IDENTITY_PROVIDER
  | WORKSPACE_SETTING_OTHER nat

text \<open>
  The \<^verbatim>\<open>oneof\<close> value of a \<^verbatim>\<open>storepb.WorkspaceSetting\<close>. The stored default
  visibility is kept as the enumeration's number.
\<close>

datatype WorkspaceSetting_Value =
    Value_not_set
  | Value_General GeneralSetting
  | Value_Security SecuritySetting
  | Value_ShortcutRelated int
  | Value_IdentityProvider "IdentityProvider list"

record WorkspaceSetting =
  Key :: WorkspaceSettingKey
  Value :: WorkspaceSetting_Value

fun GetGeneral :: "WorkspaceSetting \<Rightarrow> GeneralSetting option" where
  "GetGeneral v = (case Value v of Value_General g \<Rightarrow> Some g | _ \<Rightarrow> None)"

fun GetSecurity :: "WorkspaceSetting \<Rightarrow> SecuritySetting option" where
  "GetSecurity v = (case Value v of Value_Security g \<Rightarrow> Some g | _ \<Rightarrow> None)"

fun GetShortcutRelated :: "WorkspaceSetting \<Rightarrow> int option" where
  "GetShortcutRelated v = (case Value v of Value_ShortcutRelated g \<Rightarrow> Some g | _ \<Rightarrow> None)"

fun GetIdentityProvider :: "WorkspaceSetting \<Rightarrow> IdentityProvider list option" where
  "GetIdentityProvider v = (case Value v of Value_IdentityProvider g \<Rightarrow> Some g | _ \<Rightarrow> None)"

text \<open>
  The database behind the store: the user table, the workspace settings, and for every user
  id the list kept under the user-setting key \<^verbatim>\<open>USER_SETTING_ACCESS_TOKENS\<close>.
\<close>

record Store =
  users :: "User list"
  workspace_settings :: "WorkspaceSetting list"
  user_access_tokens :: "int \<Rightarrow> UserSetting_AccessToken list"

section \<open>Signed tokens (the library \<^verbatim>\<open>golang-jwt/jwt/v5\<close>)\<close>

text \<open>
  The value of a header field of a token is any JSON value; the key function of the
  handlers tests whether it is a string. \<open>JOther\<close> is a value that is not a string.
\<close>

datatype header_value = JString string | JOther

text \<open>
  Modelled from the spec: the type \<^verbatim>\<open>ClaimsMessage\<close>, declared outside the files at
  hand; the payload of a token (subject, issued-at, optional expires-at). It embeds
  \<^verbatim>\<open>jwt.RegisteredClaims\<close>, whose dates are pointers: a claim that the token does not
  carry is nil. Dates are in whole seconds, the precision the library decodes a numeric
  date with.
\<close>

record ClaimsMessage =
  Name :: string
  Subject :: string
  IssuedAt :: "int option"
  ExpiresAt :: "int option"
  NotBefore :: "int option"

text \<open>
  A token as \<^verbatim>\<open>Parser.ParseUnverified\<close> decodes it from its three segments: the header
  fields \<^verbatim>\<open>alg\<close> and \<^verbatim>\<open>kid\<close> (absent is \<open>None\<close>), the claims, the signed text
  (the first two segments) and the signature.
\<close>

record Token =
  Header_alg :: "header_value option"
  Header_kid :: "header_value option"
  Claims :: ClaimsMessage
  SigningString :: string
  Signature :: string

datatype keyfunc_error =
    UnexpectedSigningMethod "header_value option"
  | UnexpectedKid "header_value option"

datatype jwt_error =
    TokenMalformed
  | SigningMethodUnspecified
  | SigningMethodUnavailable
  | TokenUnverifiable keyfunc_error
  | TokenSignatureInvalid
  | TokenExpired
  | TokenNotValidYet

text \<open>The signing methods the library registers, by the name \<^verbatim>\<open>Alg()\<close> returns.\<close>

definition registered_methods :: "string list" where
  "registered_methods = [''HS256'', ''HS384'', ''HS512'', ''RS256'', ''RS384'', ''RS512'',
     ''ES256'', ''ES384'', ''ES512'', ''PS256'', ''PS384'', ''PS512'', ''EdDSA'', ''none'']"

definition GetSigningMethod :: "string \<Rightarrow> string option" where
  "GetSigningMethod alg = (if alg \<in> set registered_methods then Some alg else None)"

section \<open>The service and its collaborators\<close>

datatype FeatureType = FeatureTypeSSO | FeatureTypeUnlimitedAccounts
  | FeatureTypeUnlimitedCollections | FeatureTypeOther

text \<open>
  The calls that do input or output, by the place of the call. Each can fail with an error
  of its own, whatever the others do.
\<close>

datatype call =
    SignIn_GetUser
  | SignIn_GetWorkspaceSecuritySetting
  | SSO_GetWorkspaceSetting
  | SSO_GetUser
  | SSO_CreateUser
  | SignUp_GetWorkspaceSecuritySetting
  | SignUp_ListUsers
  | SignUp_CreateUser
  | CheckSeat_ListUsers
  | CreateUser_CreateUser
  | Upsert_GetUserAccessTokens
  | Upsert_UpsertUserSetting
  | List_GetUserAccessTokens
  | Delete_GetUserAccessTokens
  | Delete_UpsertUserSetting
  | Setting_ListWorkspaceSettings
  | grpc_SetHeader

text \<open>The columns an \<^verbatim>\<open>INSERT ... RETURNING\<close> on the user table gives back.\<close>

record Returning =
  ret_id :: int
  ret_created_ts :: int
  ret_updated_ts :: int
  ret_row_status :: RowStatus

record IdentityProviderUserInfo =
  ui_Identifier :: string
  ui_DisplayName :: string

text \<open>
  \<open>env\<close> holds what a handler reads and does not compute itself.
  \<^item> Fields of \<^verbatim>\<open>APIV1Service\<close>: \<open>Secret\<close>, and the license service
    (\<open>IsFeatureEnabled\<close>, and \<open>Seats\<close> for \<^verbatim>\<open>GetSubscription().Seats\<close>).
  \<^item> Constants and functions of the repository that are declared outside the files at
    hand, taken as parameters: \<open>AccessTokenCookieName\<close>, \<open>AccessTokenDuration\<close>
    (in seconds), \<open>GenerateAccessToken\<close> (its expiry is \<open>None\<close> for the zero
    \<^verbatim>\<open>time.Time{}\<close>), \<open>ValidateEmail\<close>, \<open>RandomString\<close> (the
    outcome of \<^verbatim>\<open>util.RandomString(20)\<close>), \<open>convertVisibilityFromStorepb\<close>,
    \<open>convertStateFromRowStatus\<close>, the three operations of the OAuth2 adapter, and
    \<open>getCurrentUser\<close>, the outcome of \<^verbatim>\<open>getCurrentUser(ctx, s.Store)\<close> for the request
    (an error, no user for an anonymous caller, or the caller).
  \<^item> Libraries: bcrypt (\<open>CompareHashAndPassword\<close> is \<open>True\<close> when the library returns
    no error), the token library's decoding and signature check, the formatting of a time
    as RFC 1123, and the rendering of a token error as text.
  \<^item> The world: the clock (\<open>Now\<close>, seconds since the epoch), the errors of the calls that
    do input or output (\<open>fault\<close>: \<open>None\<close> when the call succeeds), and the columns the
    database fills in on an insert.
\<close>

record env =
  Secret :: string
  IsFeatureEnabled :: "FeatureType \<Rightarrow> bool"
  Seats :: int
  AccessTokenCookieName :: string
  AccessTokenDuration :: int
  getCurrentUser :: "string + User option"
  Now :: int
  fault :: "call \<Rightarrow> string option"
  insert_returning :: "Store \<Rightarrow> User \<Rightarrow> Returning"
  CompareHashAndPassword :: "string \<Rightarrow> string \<Rightarrow> bool"
  GenerateFromPassword :: "string \<Rightarrow> string + string"
  GenerateAccessToken :: "string \<Rightarrow> int \<Rightarrow> int option \<Rightarrow> string \<Rightarrow> string + string"
  ParseUnverified :: "string \<Rightarrow> Token option"
  Verify :: "string \<Rightarrow> string \<Rightarrow> string \<Rightarrow> string \<Rightarrow> bool"
  jwt_error_text :: "jwt_error \<Rightarrow> string"
  Format_RFC1123 :: "int \<Rightarrow> string"
  ValidateEmail :: "string \<Rightarrow> bool"
  RandomString :: "string + string"
  NewIdentityProvider :: "OAuth2Config option \<Rightarrow> string option"
  ExchangeToken :: "OAuth2Config option \<Rightarrow> string \<Rightarrow> string \<Rightarrow> string + string"
  UserInfo :: "OAuth2Config option \<Rightarrow> string \<Rightarrow> string + IdentityProviderUserInfo"
  convertVisibilityFromStorepb :: "int \<Rightarrow> int"
  convertStateFromRowStatus :: "RowStatus \<Rightarrow> int"

section \<open>The store\<close>

text \<open>
  The query of \<^verbatim>\<open>(d *DB) ListUsers\<close>: the rows that match every filter of \<open>fnd\<close>,
  \<^verbatim>\<open>ORDER BY updated_ts DESC, created_ts DESC\<close>. Rows with equal keys come in the
  table's order (SQL leaves their order open).
\<close>

definition matches :: "FindUser \<Rightarrow> User \<Rightarrow> bool" where
  "matches fnd u \<longleftrightarrow>
     (case find_ID fnd of None \<Rightarrow> True | Some v \<Rightarrow> ID u = v) \<and>
     (case find_RowStatus fnd of None \<Rightarrow> True | Some v \<Rightarrow> RowStatus u = v) \<and>
     (case find_Email fnd of None \<Rightarrow> True | Some v \<Rightarrow> Email u = v) \<and>
     (case find_Nickname fnd of None \<Rightarrow> True | Some v \<Rightarrow> Nickname u = v) \<and>
     (case find_Role fnd of None \<Rightarrow> True | Some v \<Rightarrow> Role u = v)"

definition DB_ListUsers :: "Store \<Rightarrow> FindUser \<Rightarrow> User list" where
  "DB_ListUsers s fnd =
     sort_key (\<lambda>u. (- UpdatedTs u, - CreatedTs u)) (filter (matches fnd) (users s))"

text \<open>
  \<^verbatim>\<open>(d *DB) CreateUser\<close>: the row is inserted with the email, nickname, password hash
  and role of \<open>create\<close>; the database returns its id, timestamps and row status, which are
  written into the record the caller gets back.
\<close>

definition DB_CreateUser :: "env \<Rightarrow> Store \<Rightarrow> User \<Rightarrow> User \<times> Store" where
  "DB_CreateUser env s create =
     (let r = insert_returning env s create;
          user = create\<lparr>ID := ret_id r, CreatedTs := ret_created_ts r,
                         UpdatedTs := ret_updated_ts r, RowStatus := ret_row_status r\<rparr>
      in (user, s\<lparr>users := users s @ [user]\<rparr>))"

text \<open>
  The methods of \<^verbatim>\<open>store.Store\<close> are not among the files at hand; the spec has the
  store as a record CRUD interface over the database. Each method below runs its query,
  or fails with the error of the call.
\<close>

text \<open>
  Modelled from the spec: \<^verbatim>\<open>Store.ListUsers\<close>, missing from the files; it lists the
  users through the driver's query.
\<close>

definition Store_ListUsers :: "env \<Rightarrow> call \<Rightarrow> Store \<Rightarrow> FindUser \<Rightarrow> string + User list" where
  "Store_ListUsers env c s fnd =
     (case fault env c of Some err \<Rightarrow> Inl err | None \<Rightarrow> Inr (DB_ListUsers s fnd))"

text \<open>
  Modelled from the spec: \<^verbatim>\<open>Store.GetUser\<close>, missing from the files; the user lookup,
  which gives the first row of the listing, or nil when there is none.
\<close>

definition Store_GetUser :: "env \<Rightarrow> call \<Rightarrow> Store \<Rightarrow> FindUser \<Rightarrow> string + User option" where
  "Store_GetUser env c s fnd =
     (case fault env c of
        Some err \<Rightarrow> Inl err
      | None \<Rightarrow> Inr (case DB_ListUsers s fnd of [] \<Rightarrow> None | u # _ \<Rightarrow> Some u))"

text \<open>
  Modelled from the spec: \<^verbatim>\<open>Store.CreateUser\<close>, missing from the files; it creates the
  user through the driver's insert.
\<close>

definition Store_CreateUser :: "env \<Rightarrow> call \<Rightarrow> Store \<Rightarrow> User \<Rightarrow> string + User \<times> Store" where
  "Store_CreateUser env c s create =
     (case fault env c of Some err \<Rightarrow> Inl err | None \<Rightarrow> Inr (DB_CreateUser env s create))"

text \<open>
  Modelled from the spec: \<^verbatim>\<open>Store.GetWorkspaceSetting\<close>, missing from the files; the
  first stored setting with the key, or nil.
\<close>

definition Store_GetWorkspaceSetting ::
  "env \<Rightarrow> call \<Rightarrow> Store \<Rightarrow> WorkspaceSettingKey \<Rightarrow> string + WorkspaceSetting option" where
  "Store_GetWorkspaceSetting env c s k =
     (case fault env c of
        Some err \<Rightarrow> Inl err
      | None \<Rightarrow> Inr (find (\<lambda>v. Key v = k) (workspace_settings s)))"

definition SecuritySetting_zero :: SecuritySetting where
  "SecuritySetting_zero = \<lparr>DisallowUserRegistration = False, DisallowPasswordAuth = False\<rparr>"

text \<open>
  Modelled from the spec: \<^verbatim>\<open>Store.GetWorkspaceSecuritySetting\<close>, missing from the
  files; the two booleans of the workspace security setting, kept under
  \<^verbatim>\<open>WORKSPACE_SETTING_SECURITY\<close>, and the zero setting when none is stored (the
  handlers read its fields without a nil check).
\<close>

definition Store_GetWorkspaceSecuritySetting ::
  "env \<Rightarrow> call \<Rightarrow> Store \<Rightarrow> string + SecuritySetting" where
  "Store_GetWorkspaceSecuritySetting env c s =
     (case fault env c of
        Some err \<Rightarrow> Inl err
      | None \<Rightarrow>
          Inr (case find (\<lambda>v. Key v = WORKSPACE_SETTING_SECURITY) (workspace_settings s) of
                 None \<Rightarrow> SecuritySetting_zero
               | Some v \<Rightarrow> (case GetSecurity v of None \<Rightarrow> SecuritySetting_zero | Some g \<Rightarrow> g)))"

text \<open>
  Modelled from the spec: \<^verbatim>\<open>Store.ListWorkspaceSettings\<close>, missing from the files; all
  stored workspace settings.
\<close>

definition Store_ListWorkspaceSettings ::
  "env \<Rightarrow> call \<Rightarrow> Store \<Rightarrow> string + WorkspaceSetting list" where
  "Store_ListWorkspaceSettings env c s =
     (case fault env c of Some err \<Rightarrow> Inl err | None \<Rightarrow> Inr (workspace_settings s))"

text \<open>
  Modelled from the spec: \<^verbatim>\<open>Store.GetUserAccessTokens\<close>, missing from the files; it
  reads the persisted raw token list of the user from the settings collaborator.
\<close>

definition Store_GetUserAccessTokens ::
  "env \<Rightarrow> call \<Rightarrow> Store \<Rightarrow> int \<Rightarrow> string + UserSetting_AccessToken list" where
  "Store_GetUserAccessTokens env c s uid =
     (case fault env c of Some err \<Rightarrow> Inl err | None \<Rightarrow> Inr (user_access_tokens s uid))"

text \<open>
  Modelled from the spec: \<^verbatim>\<open>Store.UpsertUserSetting\<close>, missing from the files, for the
  key \<^verbatim>\<open>USER_SETTING_ACCESS_TOKENS\<close>; it writes the whole list of the user back.
\<close>

definition Store_UpsertUserSetting ::
  "env \<Rightarrow> call \<Rightarrow> Store \<Rightarrow> int \<Rightarrow> UserSetting_AccessToken list \<Rightarrow> string + Store" where
  "Store_UpsertUserSetting env c s uid toks =
     (case fault env c of
        Some err \<Rightarrow> Inl err
      | None \<Rightarrow> Inr (s\<lparr>user_access_tokens := (user_access_tokens s)(uid := toks)\<rparr>))"

section \<open>Messages of the API\<close>

datatype Role_v1 = ROLE_UNSPECIFIED | ADMIN | USER

record User_v1 =
  v1_Id :: int
  v1_State :: int
  v1_CreatedTime :: int
  v1_UpdatedTime :: int
  v1_Role :: Role_v1
  v1_Email :: string
  v1_Nickname :: string

fun convertUserRoleFromStore :: "Role \<Rightarrow> Role_v1" where
  "convertUserRoleFromStore RoleAdmin = ADMIN"
| "convertUserRoleFromStore RoleUser = USER"
| "convertUserRoleFromStore (RoleOther r) = ROLE_UNSPECIFIED"

definition convertUserFromStore :: "env \<Rightarrow> User \<Rightarrow> User_v1" where
  "convertUserFromStore env user =
     \<lparr>v1_Id = ID user,
      v1_State = convertStateFromRowStatus env (RowStatus user),
      v1_CreatedTime = CreatedTs user,
      v1_UpdatedTime = UpdatedTs user,
      v1_Role = convertUserRoleFromStore (Role user),
      v1_Email = Email user,
      v1_Nickname = Nickname user\<rparr>"

text \<open>The header metadata a call sets with \<^verbatim>\<open>grpc.SetHeader\<close>.\<close>

type_synonym metadata = "(string \<times> string) list"

section \<open>\<^verbatim>\<open>auth_service.go\<close>\<close>

definition unmatchedEmailAndPasswordError :: string where
  "unmatchedEmailAndPasswordError = ''unmatched email and password''"

record SignInRequest =
  req_Email :: string
  req_Password :: string

record SignUpRequest =
  su_Email :: string
  su_Nickname :: string
  su_Password :: string

record SignInWithSSORequest =
  sso_IdpId :: string
  sso_Code :: string
  sso_RedirectUri :: string

definition UpsertAccessTokenToStore ::
  "env \<Rightarrow> Store \<Rightarrow> User \<Rightarrow> string \<Rightarrow> string \<Rightarrow> string option \<times> Store" where
  "UpsertAccessTokenToStore env s user accessToken description =
     (case Store_GetUserAccessTokens env Upsert_GetUserAccessTokens s (ID user) of
        Inl err \<Rightarrow> (Some (''failed to get user access tokens: '' @ err), s)
      | Inr userAccessTokens \<Rightarrow>
          (case Store_UpsertUserSetting env Upsert_UpsertUserSetting s (ID user)
                  (userAccessTokens @
                     [\<lparr>AccessToken = accessToken, Description = description\<rparr>]) of
             Inl err \<Rightarrow> (Some (''failed to upsert user setting: '' @ err), s)
           | Inr s' \<Rightarrow> (None, s')))"

definition doSignIn :: "env \<Rightarrow> Store \<Rightarrow> User \<Rightarrow> int \<Rightarrow> error option \<times> metadata \<times> Store" where
  "doSignIn env s user expireTime =
     (case GenerateAccessToken env (Email user) (ID user) (Some expireTime) (Secret env) of
        Inl err \<Rightarrow>
          (Some (Status Internal (''failed to generate access token: '' @ err)), [], s)
      | Inr accessToken \<Rightarrow>
          (case UpsertAccessTokenToStore env s user accessToken ''user login'' of
             (Some err, s') \<Rightarrow>
               (Some (Status Internal (''failed to upsert access token to store: '' @ err)),
                [], s')
           | (None, s') \<Rightarrow>
               (let cookie = AccessTokenCookieName env @ ''='' @ accessToken
                      @ ''; Path=/; Expires=''
                      @ Format_RFC1123 env (Now env + AccessTokenDuration env)
                      @ ''; HttpOnly; SameSite=Strict''
                in case fault env grpc_SetHeader of
                     Some err \<Rightarrow>
                       (Some (Status Internal (''failed to set grpc header, error: '' @ err)),
                        [], s')
                   | None \<Rightarrow> (None, [(''Set-Cookie'', cookie)], s'))))"

definition SignIn ::
  "env \<Rightarrow> Store \<Rightarrow> SignInRequest \<Rightarrow> (error + User_v1) \<times> metadata \<times> Store" where
  "SignIn env s request =
     (case Store_GetUser env SignIn_GetUser s
             (FindUser_empty\<lparr>find_Email := Some (req_Email request)\<rparr>) of
        Inl err \<Rightarrow> (Inl (Status Internal (''failed to get user: '' @ err)), [], s)
      | Inr None \<Rightarrow> (Inl (Status InvalidArgument unmatchedEmailAndPasswordError), [], s)
      | Inr (Some user) \<Rightarrow>
          if \<not> CompareHashAndPassword env (PasswordHash user) (req_Password request)
          then (Inl (Status InvalidArgument unmatchedEmailAndPasswordError), [], s)
          else
            (case Store_GetWorkspaceSecuritySetting env SignIn_GetWorkspaceSecuritySetting s of
               Inl err \<Rightarrow>
                 (Inl (Status Internal (''failed to get workspace security setting: '' @ err)),
                  [], s)
             | Inr workspaceSecuritySetting \<Rightarrow>
                 if DisallowPasswordAuth workspaceSecuritySetting \<and> Role user = RoleUser
                 then (Inl (Status PermissionDenied ''password authentication is not allowed''),
                       [], s)
                 else if RowStatus user = ARCHIVED
                 then (Inl (Status PermissionDenied ''user has been archived''), [], s)
                 else
                   (case doSignIn env s user (Now env + AccessTokenDuration env) of
                      (Some err, md, s') \<Rightarrow>
                        (Inl (Status Internal (''failed to sign in: '' @ error_Error err)),
                         md, s')
                    | (None, md, s') \<Rightarrow> (Inr (convertUserFromStore env user), md, s'))))"

definition SignOut :: "env \<Rightarrow> Store \<Rightarrow> (error + unit) \<times> metadata \<times> Store" where
  "SignOut env s =
     (case fault env grpc_SetHeader of
        Some err \<Rightarrow>
          (Inl (Status Internal (''failed to set grpc header, error: '' @ err)), [], s)
      | None \<Rightarrow>
          (Inr (),
           [(''Set-Cookie'', AccessTokenCookieName env
               @ ''=; Path=/; Expires=Thu, 01 Jan 1970 00:00:00 GMT; HttpOnly; SameSite=Strict'')],
           s))"

definition checkSeatAvailability :: "env \<Rightarrow> Store \<Rightarrow> error option" where
  "checkSeatAvailability env s =
     (if \<not> IsFeatureEnabled env FeatureTypeUnlimitedAccounts then
        (case Store_ListUsers env CheckSeat_ListUsers s FindUser_empty of
           Inl err \<Rightarrow> Some (Status Internal (''failed to list users: '' @ err))
         | Inr userList \<Rightarrow>
             if int (length userList) \<ge> Seats env
             then Some (Status FailedPrecondition
                          (''maximum number of users '' @ fmt_d (Seats env) @ '' reached''))
             else None)
      else None)"

definition SignUp ::
  "env \<Rightarrow> Store \<Rightarrow> SignUpRequest \<Rightarrow> (error + User_v1) \<times> metadata \<times> Store" where
  "SignUp env s request =
     (case Store_GetWorkspaceSecuritySetting env SignUp_GetWorkspaceSecuritySetting s of
        Inl err \<Rightarrow>
          (Inl (Status Internal (''failed to get workspace security setting: '' @ err)), [], s)
      | Inr workspaceSecuritySetting \<Rightarrow>
          if DisallowUserRegistration workspaceSecuritySetting
          then (Inl (Status PermissionDenied ''sign up is not allowed''), [], s)
          else
            (case checkSeatAvailability env s of
               Some err \<Rightarrow> (Inl err, [], s)
             | None \<Rightarrow>
                 (case GenerateFromPassword env (su_Password request) of
                    Inl err \<Rightarrow>
                      (Inl (Status Internal (''failed to generate password hash: '' @ err)),
                       [], s)
                  | Inr passwordHash \<Rightarrow>
                      (case Store_ListUsers env SignUp_ListUsers s FindUser_empty of
                         Inl err \<Rightarrow>
                           (Inl (Status Internal (''failed to list users: '' @ err)), [], s)
                       | Inr existingUsers \<Rightarrow>
                           (let create = \<lparr>ID = 0, CreatedTs = 0, UpdatedTs = 0,
                                   RowStatus = ROW_STATUS_UNSPECIFIED,
                                   Email = su_Email request,
                                   Nickname = su_Nickname request,
                                   PasswordHash = passwordHash,
                                   Role = (if length existingUsers = 0 then RoleAdmin
                                           else RoleUser)\<rparr>
                            in case Store_CreateUser env SignUp_CreateUser s create of
                                 Inl err \<Rightarrow>
                                   (Inl (Status Internal (''failed to create user: '' @ err)),
                                    [], s)
                               | Inr (user, s1) \<Rightarrow>
                                   (case doSignIn env s1 user
                                           (Now env + AccessTokenDuration env) of
                                      (Some err, md, s2) \<Rightarrow>
                                        (Inl (Status Internal
                                                (''failed to sign in: '' @ error_Error err)),
                                         md, s2)
                                    | (None, md, s2) \<Rightarrow>
                                        (Inr (convertUserFromStore env user), md, s2)))))))"

text \<open>
  \<^verbatim>\<open>SignInWithSSO\<close>, lines 96 to 110: \<^verbatim>\<open>userInfo\<close> is declared nil and is assigned
  only in the branch of a provider of type OAuth2.
\<close>

definition SSO_userInfo ::
  "env \<Rightarrow> IdentityProvider \<Rightarrow> SignInWithSSORequest \<Rightarrow> error + IdentityProviderUserInfo option"
  where
  "SSO_userInfo env identityProvider request =
     (if Idp_Type identityProvider = OAUTH2 then
        (let config = GetOauth2 (Idp_Config identityProvider) in
         case NewIdentityProvider env config of
           Some err \<Rightarrow>
             Inl (Status Internal (''failed to create oauth2 identity provider, err: '' @ err))
         | None \<Rightarrow>
             (case ExchangeToken env config (sso_RedirectUri request) (sso_Code request) of
                Inl err \<Rightarrow> Inl (Status Internal (''failed to exchange token, err: '' @ err))
              | Inr token \<Rightarrow>
                  (case UserInfo env config token of
                     Inl err \<Rightarrow> Inl (Status Internal (''failed to get user info, err: '' @ err))
                   | Inr userInfo \<Rightarrow> Inr (Some userInfo))))
      else Inr None)"

text \<open>
  \<^verbatim>\<open>SignInWithSSO\<close>, lines 122 to 145: a user that does not exist yet is created, after
  the seat check, with role \<^verbatim>\<open>store.RoleUser\<close>.
\<close>

definition SSO_provision ::
  "env \<Rightarrow> Store \<Rightarrow> string \<Rightarrow> IdentityProviderUserInfo \<Rightarrow> error + User \<times> Store" where
  "SSO_provision env s email userInfo =
     (case checkSeatAvailability env s of
        Some err \<Rightarrow> Inl err
      | None \<Rightarrow>
          (case RandomString env of
             Inl err \<Rightarrow>
               Inl (Status Internal (''failed to generate random password, err: '' @ err))
           | Inr password \<Rightarrow>
               (case GenerateFromPassword env password of
                  Inl err \<Rightarrow>
                    Inl (Status Internal (''failed to generate password hash, err: '' @ err))
                | Inr passwordHash \<Rightarrow>
                    (let userCreate = \<lparr>ID = 0, CreatedTs = 0, UpdatedTs = 0,
                            RowStatus = ROW_STATUS_UNSPECIFIED,
                            Email = email,
                            Nickname = ui_DisplayName userInfo,
                            PasswordHash = passwordHash,
                            Role = RoleUser\<rparr>
                     in case Store_CreateUser env SSO_CreateUser s userCreate of
                          Inl err \<Rightarrow>
                            Inl (Status Internal (''failed to create user, err: '' @ err))
                        | Inr r \<Rightarrow> Inr r))))"

definition SignInWithSSO ::
  "env \<Rightarrow> Store \<Rightarrow> SignInWithSSORequest \<Rightarrow> (error + User_v1) \<times> metadata \<times> Store" where
  "SignInWithSSO env s request =
     (if \<not> IsFeatureEnabled env FeatureTypeSSO
      then (Inl (Status PermissionDenied ''SSO is not available in the current plan''), [], s)
      else
        (case Store_GetWorkspaceSetting env SSO_GetWorkspaceSetting s
                WORKSPACE_SETTING_IDENTITY_PROVIDER of
           Inl err \<Rightarrow>
             (Inl (Status Internal (''failed to get workspace setting, err: '' @ err)), [], s)
         | Inr identityProviderSetting \<Rightarrow>
             (case (case identityProviderSetting of
                      None \<Rightarrow> None | Some v \<Rightarrow> GetIdentityProvider v) of
                None \<Rightarrow> (Inl (Status InvalidArgument ''identity provider not found''), [], s)
              | Some identityProviders \<Rightarrow>
                  (case find (\<lambda>idp. Idp_Id idp = sso_IdpId request) identityProviders of
                     None \<Rightarrow>
                       (Inl (Status InvalidArgument ''identity provider not found''), [], s)
                   | Some identityProvider \<Rightarrow>
                       (case SSO_userInfo env identityProvider request of
                          Inl err \<Rightarrow> (Inl err, [], s)
                        | Inr None \<Rightarrow> (Inl NilPointerDereference, [], s)
                        | Inr (Some userInfo) \<Rightarrow>
                            (let email = ui_Identifier userInfo in
                             if \<not> ValidateEmail env email
                             then (Inl (Status InvalidArgument ''invalid email address''), [], s)
                             else
                               (case Store_GetUser env SSO_GetUser s
                                       (FindUser_empty\<lparr>find_Email := Some email\<rparr>) of
                                  Inl err \<Rightarrow>
                                    (Inl (Status Internal (''failed to get user, err: '' @ err)),
                                     [], s)
                                | Inr found \<Rightarrow>
                                    (case (case found of
                                             Some user \<Rightarrow> Inr (user, s)
                                           | None \<Rightarrow> SSO_provision env s email userInfo) of
                                       Inl err \<Rightarrow> (Inl err, [], s)
                                     | Inr (user, s1) \<Rightarrow>
                                         if RowStatus user = ARCHIVED
                                         then (Inl (Status PermissionDenied
                                                      ''user has been archived''), [], s1)
                                         else
                                           (case doSignIn env s1 user
                                                   (Now env + AccessTokenDuration env) of
                                              (Some err, md, s2) \<Rightarrow>
                                                (Inl (Status Internal
                                                   (''failed to sign in, err: ''
                                                      @ error_Error err)), md, s2)
                                            | (None, md, s2) \<Rightarrow>
                                                (Inr (convertUserFromStore env user),
                                                 md, s2))))))))))"

section \<open>\<^verbatim>\<open>workspace_service.go\<close>: users\<close>

text \<open>
  The fields of \<^verbatim>\<open>request.User\<close> that \<^verbatim>\<open>CreateUser\<close> reads. The field \<^verbatim>\<open>User\<close> of
  the request is a pointer, read without a nil check.
\<close>

record UserInput =
  in_Email :: string
  in_Nickname :: string
  in_Password :: string

definition CreateUser :: "env \<Rightarrow> Store \<Rightarrow> UserInput option \<Rightarrow> (error + User_v1) \<times> Store" where
  "CreateUser env s request_User =
     (case request_User of
        None \<Rightarrow> (Inl NilPointerDereference, s)
      | Some ru \<Rightarrow>
          (case GenerateFromPassword env (in_Password ru) of
             Inl err \<Rightarrow> (Inl (Status Internal (''failed to hash password: '' @ err)), s)
           | Inr passwordHash \<Rightarrow>
               (case checkSeatAvailability env s of
                  Some err \<Rightarrow> (Inl err, s)
                | None \<Rightarrow>
                    (case Store_CreateUser env CreateUser_CreateUser s
                            \<lparr>ID = 0, CreatedTs = 0, UpdatedTs = 0,
                             RowStatus = ROW_STATUS_UNSPECIFIED,
                             Email = in_Email ru,
                             Nickname = in_Nickname ru,
                             PasswordHash = passwordHash,
                             Role = RoleUser\<rparr> of
                       Inl err \<Rightarrow>
                         (Inl (Status Internal (''failed to create user: '' @ err)), s)
                     | Inr (user, s') \<Rightarrow> (Inr (convertUserFromStore env user), s')))))"

section \<open>\<^verbatim>\<open>workspace_service.go\<close>: access tokens\<close>

text \<open>
  The key function that \<^verbatim>\<open>ListUserAccessTokens\<close> (lines 417 to 427) and
  \<^verbatim>\<open>CreateUserAccessToken\<close> (lines 473 to 483) pass to \<^verbatim>\<open>jwt.ParseWithClaims\<close>; the
  two closures are the same text. \<open>method\<close> is \<^verbatim>\<open>t.Method.Alg()\<close>.
\<close>

definition keyFunc :: "string \<Rightarrow> string \<Rightarrow> Token \<Rightarrow> keyfunc_error + string" where
  "keyFunc secret method t =
     (if method \<noteq> ''HS256'' then Inl (UnexpectedSigningMethod (Header_alg t))
      else
        (case Header_kid t of
           Some (JString kid) \<Rightarrow>
             if kid = ''v1'' then Inr secret else Inl (UnexpectedKid (Header_kid t))
         | _ \<Rightarrow> Inl (UnexpectedKid (Header_kid t))))"

text \<open>
  The library's validation of the registered claims, with its default options: an expiry,
  when the token has one, must be after now, and a not-before date must not be after now.
\<close>

definition validate_claims :: "int \<Rightarrow> ClaimsMessage \<Rightarrow> jwt_error option" where
  "validate_claims now claims =
     (if (case ExpiresAt claims of Some exp \<Rightarrow> \<not> now < exp | None \<Rightarrow> False)
      then Some TokenExpired
      else if (case NotBefore claims of Some nbf \<Rightarrow> now < nbf | None \<Rightarrow> False)
      then Some TokenNotValidYet
      else None)"

text \<open>
  \<^verbatim>\<open>jwt.ParseWithClaims\<close>: decode the token; its \<^verbatim>\<open>alg\<close> must be a string that names
  a registered signing method; ask the key function for the key; check the signature with
  the method; validate the claims. The claims are returned only when all of it passes.
\<close>

definition ParseWithClaims ::
  "env \<Rightarrow> string \<Rightarrow> (string \<Rightarrow> Token \<Rightarrow> keyfunc_error + string) \<Rightarrow> jwt_error + ClaimsMessage"
  where
  "ParseWithClaims env tokenString kf =
     (case ParseUnverified env tokenString of
        None \<Rightarrow> Inl TokenMalformed
      | Some t \<Rightarrow>
          (case Header_alg t of
             Some (JString alg) \<Rightarrow>
               (case GetSigningMethod alg of
                  None \<Rightarrow> Inl SigningMethodUnavailable
                | Some method \<Rightarrow>
                    (case kf method t of
                       Inl err \<Rightarrow> Inl (TokenUnverifiable err)
                     | Inr key \<Rightarrow>
                         if \<not> Verify env method (SigningString t) (Signature t) key
                         then Inl TokenSignatureInvalid
                         else (case validate_claims (Now env) (Claims t) of
                                 Some err \<Rightarrow> Inl err
                               | None \<Rightarrow> Inr (Claims t))))
           | _ \<Rightarrow> Inl SigningMethodUnspecified))"

text \<open>
  \<^verbatim>\<open>v1pb.UserAccessToken\<close>. The two dates are \<^verbatim>\<open>timestamppb\<close> timestamps, compared
  by their field \<^verbatim>\<open>Seconds\<close>, a 64-bit signed integer.
\<close>

record UserAccessToken =
  v1_AccessToken :: string
  v1_Description :: string
  v1_IssuedAt :: "64 word"
  v1_ExpiresAt :: "64 word option"

text \<open>
  The loop of \<^verbatim>\<open>ListUserAccessTokens\<close> (lines 415 to 442). A token that fails to parse
  is skipped. \<^verbatim>\<open>claims.IssuedAt\<close> is a pointer and is read without a nil check.
\<close>

fun list_loop ::
  "env \<Rightarrow> UserSetting_AccessToken list \<Rightarrow> UserAccessToken list \<Rightarrow> error + UserAccessToken list"
  where
  "list_loop env [] accessTokens = Inr accessTokens"
| "list_loop env (userAccessToken # rest) accessTokens =
     (case ParseWithClaims env (AccessToken userAccessToken) (keyFunc (Secret env)) of
        Inl err \<Rightarrow> list_loop env rest accessTokens
      | Inr claims \<Rightarrow>
          (case IssuedAt claims of
             None \<Rightarrow> Inl NilPointerDereference
           | Some iat \<Rightarrow>
               list_loop env rest
                 (accessTokens @
                    [\<lparr>v1_AccessToken = AccessToken userAccessToken,
                      v1_Description = Description userAccessToken,
                      v1_IssuedAt = word_of_int iat,
                      v1_ExpiresAt = map_option word_of_int (ExpiresAt claims)\<rparr>])))"

text \<open>
  \<^verbatim>\<open>slices.SortFunc\<close> of \<^verbatim>\<open>golang.org/x/exp/slices\<close>. Up to twelve elements the
  library sorts by insertion: each element in turn moves left while \<^verbatim>\<open>cmp\<close> of it and its
  left neighbour is negative. Longer slices go through a quicksort, which also only swaps
  elements; this model sorts by insertion at every length. \<open>insert_left\<close> takes the
  prefix sorted so far with its last element first.
\<close>

fun insert_left :: "('a \<Rightarrow> 'a \<Rightarrow> int) \<Rightarrow> 'a \<Rightarrow> 'a list \<Rightarrow> 'a list" where
  "insert_left cmp x [] = [x]"
| "insert_left cmp x (y # ys) =
     (if cmp x y < 0 then y # insert_left cmp x ys else x # y # ys)"

definition SortFunc :: "'a list \<Rightarrow> ('a \<Rightarrow> 'a \<Rightarrow> int) \<Rightarrow> 'a list" where
  "SortFunc x cmp = rev (foldl (\<lambda>prefix e. insert_left cmp e prefix) [] x)"

text \<open>
  The comparison of lines 445 to 447: \<^verbatim>\<open>int(i.IssuedAt.Seconds - j.IssuedAt.Seconds)\<close>.
  The subtraction is that of 64-bit integers; \<^verbatim>\<open>int\<close> has 64 bits on the 64-bit
  platforms.
\<close>

definition cmp_IssuedAt :: "UserAccessToken \<Rightarrow> UserAccessToken \<Rightarrow> int" where
  "cmp_IssuedAt i j = sint (v1_IssuedAt i - v1_IssuedAt j)"

definition ListUserAccessTokens ::
  "env \<Rightarrow> Store \<Rightarrow> int \<Rightarrow> (error + UserAccessToken list) \<times> Store" where
  "ListUserAccessTokens env s request_Id =
     (case getCurrentUser env of
        Inl err \<Rightarrow> (Inl (Status Internal (''failed to get current user: '' @ err)), s)
      | Inr None \<Rightarrow> (Inl NilPointerDereference, s)
      | Inr (Some user) \<Rightarrow>
          if ID user \<noteq> request_Id then (Inl (Status PermissionDenied ''Permission denied''), s)
          else
            (case Store_GetUserAccessTokens env List_GetUserAccessTokens s (ID user) of
               Inl err \<Rightarrow>
                 (Inl (Status Internal (''failed to list access tokens: '' @ err)), s)
             | Inr userAccessTokens \<Rightarrow>
                 (case list_loop env userAccessTokens [] of
                    Inl err \<Rightarrow> (Inl err, s)
                  | Inr accessTokens \<Rightarrow> (Inr (SortFunc accessTokens cmp_IssuedAt), s))))"

record CreateUserAccessTokenRequest =
  cat_Id :: int
  cat_Description :: string
  cat_ExpiresAt :: "int option"

definition CreateUserAccessToken ::
  "env \<Rightarrow> Store \<Rightarrow> CreateUserAccessTokenRequest \<Rightarrow> (error + UserAccessToken) \<times> Store" where
  "CreateUserAccessToken env s request =
     (case getCurrentUser env of
        Inl err \<Rightarrow> (Inl (Status Internal (''failed to get current user: '' @ err)), s)
      | Inr None \<Rightarrow> (Inl NilPointerDereference, s)
      | Inr (Some user) \<Rightarrow>
          if ID user \<noteq> cat_Id request
          then (Inl (Status PermissionDenied ''Permission denied''), s)
          else
            (case GenerateAccessToken env (Email user) (ID user) (cat_ExpiresAt request)
                    (Secret env) of
               Inl err \<Rightarrow>
                 (Inl (Status Internal (''failed to generate access token: '' @ err)), s)
             | Inr accessToken \<Rightarrow>
                 (case ParseWithClaims env accessToken (keyFunc (Secret env)) of
                    Inl err \<Rightarrow>
                      (Inl (Status Internal
                              (''failed to parse access token: '' @ jwt_error_text env err)), s)
                  | Inr claims \<Rightarrow>
                      (case UpsertAccessTokenToStore env s user accessToken
                              (cat_Description request) of
                         (Some err, s') \<Rightarrow>
                           (Inl (Status Internal
                                   (''failed to upsert access token to store: '' @ err)), s')
                       | (None, s') \<Rightarrow>
                           (case IssuedAt claims of
                              None \<Rightarrow> (Inl NilPointerDereference, s')
                            | Some iat \<Rightarrow>
                                (Inr \<lparr>v1_AccessToken = accessToken,
                                      v1_Description = cat_Description request,
                                      v1_IssuedAt = word_of_int iat,
                                      v1_ExpiresAt =
                                        map_option word_of_int (ExpiresAt claims)\<rparr>,
                                 s'))))))"

text \<open>
  The loop of \<^verbatim>\<open>DeleteUserAccessToken\<close> (lines 514 to 519): a record whose token
  equals the request's is skipped, every other is appended to the updated list.
\<close>

fun delete_loop ::
  "string \<Rightarrow> UserSetting_AccessToken list \<Rightarrow> UserSetting_AccessToken list
     \<Rightarrow> UserSetting_AccessToken list" where
  "delete_loop request_AccessToken [] updatedUserAccessTokens = updatedUserAccessTokens"
| "delete_loop request_AccessToken (userAccessToken # rest) updatedUserAccessTokens =
     (if AccessToken userAccessToken = request_AccessToken
      then delete_loop request_AccessToken rest updatedUserAccessTokens
      else delete_loop request_AccessToken rest
             (updatedUserAccessTokens @ [userAccessToken]))"

definition DeleteUserAccessToken :: "env \<Rightarrow> Store \<Rightarrow> string \<Rightarrow> (error + unit) \<times> Store" where
  "DeleteUserAccessToken env s request_AccessToken =
     (case getCurrentUser env of
        Inl err \<Rightarrow> (Inl (Status Internal (''failed to get current user: '' @ err)), s)
      | Inr None \<Rightarrow> (Inl NilPointerDereference, s)
      | Inr (Some user) \<Rightarrow>
          (case Store_GetUserAccessTokens env Delete_GetUserAccessTokens s (ID user) of
             Inl err \<Rightarrow> (Inl (Status Internal (''failed to list access tokens: '' @ err)), s)
           | Inr userAccessTokens \<Rightarrow>
               (case Store_UpsertUserSetting env Delete_UpsertUserSetting s (ID user)
                       (delete_loop request_AccessToken userAccessTokens []) of
                  Inl err \<Rightarrow>
                    (Inl (Status Internal (''failed to upsert user setting: '' @ err)), s)
                | Inr s' \<Rightarrow> (Inr (), s'))))"

section \<open>\<^verbatim>\<open>workspace_service.go\<close>: the workspace setting\<close>

text \<open>\<^verbatim>\<open>v1pb.WorkspaceSetting\<close>, the reply of \<^verbatim>\<open>GetWorkspaceSetting\<close>.\<close>

record WorkspaceSetting_v1 =
  v1_Branding :: string
  v1_CustomStyle :: string
  v1_DisallowUserRegistration :: bool
  v1_DisallowPasswordAuth :: bool
  v1_DefaultVisibility :: int
  v1_IdentityProviders :: "IdentityProvider list"

definition WorkspaceSetting_v1_zero :: WorkspaceSetting_v1 where
  "WorkspaceSetting_v1_zero =
     \<lparr>v1_Branding = [], v1_CustomStyle = [], v1_DisallowUserRegistration = False,
      v1_DisallowPasswordAuth = False, v1_DefaultVisibility = 0, v1_IdentityProviders = []\<rparr>"

text \<open>
  \<^verbatim>\<open>convertIdentityProviderConfigFromStore\<close> copies the OAuth2 configuration field by
  field; \<^verbatim>\<open>oauth2Config.FieldMapping\<close> is a pointer and is read without a nil check.
\<close>

definition convertIdentityProviderConfigFromStore ::
  "IdentityProviderConfig option \<Rightarrow> error + IdentityProviderConfig option" where
  "convertIdentityProviderConfigFromStore identityProviderConfig =
     (case GetOauth2 identityProviderConfig of
        Some oauth2Config \<Rightarrow>
          (case FieldMapping oauth2Config of
             None \<Rightarrow> Inl NilPointerDereference
           | Some fm \<Rightarrow>
               Inr (Some (Config_Oauth2
                 \<lparr>ClientId = ClientId oauth2Config,
                  ClientSecret = ClientSecret oauth2Config,
                  AuthUrl = AuthUrl oauth2Config,
                  TokenUrl = TokenUrl oauth2Config,
                  UserInfoUrl = UserInfoUrl oauth2Config,
                  Scopes = Scopes oauth2Config,
                  FieldMapping = Some \<lparr>Identifier = Identifier fm,
                                        DisplayName = DisplayName fm\<rparr>\<rparr>)))
      | None \<Rightarrow> Inr None)"

definition convertIdentityProviderFromStore :: "IdentityProvider \<Rightarrow> error + IdentityProvider"
  where
  "convertIdentityProviderFromStore identityProvider =
     (case convertIdentityProviderConfigFromStore (Idp_Config identityProvider) of
        Inl err \<Rightarrow> Inl err
      | Inr config \<Rightarrow>
          Inr \<lparr>Idp_Id = Idp_Id identityProvider,
               Idp_Title = Idp_Title identityProvider,
               Idp_Type = Idp_Type identityProvider,
               Idp_Config = config\<rparr>)"

text \<open>
  Lines 70 to 75 of \<^verbatim>\<open>GetWorkspaceSetting\<close>: for a caller that is anonymous or not an
  admin, the client secret of an OAuth2 configuration is overwritten with the empty string.
\<close>

definition redact :: "User option \<Rightarrow> IdentityProvider \<Rightarrow> IdentityProvider" where
  "redact currentUser identityProviderV1pb =
     (if (case currentUser of None \<Rightarrow> True | Some u \<Rightarrow> Role u \<noteq> RoleAdmin) then
        (case GetOauth2 (Idp_Config identityProviderV1pb) of
           Some oauth2Config \<Rightarrow>
             identityProviderV1pb
               \<lparr>Idp_Config := Some (Config_Oauth2 (oauth2Config\<lparr>ClientSecret := []\<rparr>))\<rparr>
         | None \<Rightarrow> identityProviderV1pb)
      else identityProviderV1pb)"

text \<open>
  The inner loop (lines 68 to 77) over the identity providers of the setting. The
  elements of the repeated field are messages, none of them nil, so the nil branch of
  \<^verbatim>\<open>convertIdentityProviderFromStore\<close> is not taken.
\<close>

fun idp_loop ::
  "User option \<Rightarrow> IdentityProvider list \<Rightarrow> IdentityProvider list
     \<Rightarrow> error + IdentityProvider list" where
  "idp_loop currentUser [] out = Inr out"
| "idp_loop currentUser (identityProvider # rest) out =
     (case convertIdentityProviderFromStore identityProvider of
        Inl err \<Rightarrow> Inl err
      | Inr identityProviderV1pb \<Rightarrow>
          idp_loop currentUser rest (out @ [redact currentUser identityProviderV1pb]))"

text \<open>One turn of the outer loop (lines 53 to 79), on the setting \<open>v\<close>.\<close>

definition setting_step ::
  "env \<Rightarrow> User option \<Rightarrow> WorkspaceSetting_v1 \<Rightarrow> WorkspaceSetting
     \<Rightarrow> error + WorkspaceSetting_v1" where
  "setting_step env currentUser workspaceSetting v =
     (if Key v = WORKSPACE_SETTING_GENERAL then
        Inr (workspaceSetting
               \<lparr>v1_Branding := (case GetGeneral v of None \<Rightarrow> [] | Some g \<Rightarrow> Branding g),
                v1_CustomStyle := (case GetGeneral v of None \<Rightarrow> [] | Some g \<Rightarrow> CustomStyle g)\<rparr>)
      else if Key v = WORKSPACE_SETTING_SECURITY then
        Inr (workspaceSetting
               \<lparr>v1_DisallowUserRegistration :=
                  (case GetSecurity v of None \<Rightarrow> False | Some g \<Rightarrow> DisallowUserRegistration g),
                v1_DisallowPasswordAuth :=
                  (case GetSecurity v of None \<Rightarrow> False | Some g \<Rightarrow> DisallowPasswordAuth g)\<rparr>)
      else if Key v = WORKSPACE_SETTING_SHORTCUT_RELATED then
        Inr (workspaceSetting
               \<lparr>v1_DefaultVisibility :=
                  convertVisibilityFromStorepb env
                    (case GetShortcutRelated v of None \<Rightarrow> 0 | Some d \<Rightarrow> d)\<rparr>)
      else if Key v = WORKSPACE_SETTING_IDENTITY_PROVIDER then
        (case idp_loop currentUser
                (case GetIdentityProvider v of None \<Rightarrow> [] | Some l \<Rightarrow> l) [] of
           Inl err \<Rightarrow> Inl err
         | Inr identityProviders \<Rightarrow>
             Inr (workspaceSetting\<lparr>v1_IdentityProviders := identityProviders\<rparr>))
      else Inr workspaceSetting)"

fun settings_loop ::
  "env \<Rightarrow> User option \<Rightarrow> WorkspaceSetting list \<Rightarrow> WorkspaceSetting_v1
     \<Rightarrow> error + WorkspaceSetting_v1" where
  "settings_loop env currentUser [] workspaceSetting = Inr workspaceSetting"
| "settings_loop env currentUser (v # rest) workspaceSetting =
     (case setting_step env currentUser workspaceSetting v of
        Inl err \<Rightarrow> Inl err
      | Inr workspaceSetting' \<Rightarrow> settings_loop env currentUser rest workspaceSetting')"

definition GetWorkspaceSetting :: "env \<Rightarrow> Store \<Rightarrow> (error + WorkspaceSetting_v1) \<times> Store" where
  "GetWorkspaceSetting env s =
     (case getCurrentUser env of
        Inl err \<Rightarrow> (Inl (Status Internal (''failed to get current user: '' @ err)), s)
      | Inr currentUser \<Rightarrow>
          (case Store_ListWorkspaceSettings env Setting_ListWorkspaceSettings s of
             Inl err \<Rightarrow>
               (Inl (Status Internal (''failed to list workspace settings: '' @ err)), s)
           | Inr workspaceSettings \<Rightarrow>
               (settings_loop env currentUser workspaceSettings WorkspaceSetting_v1_zero, s)))"

section \<open>Concrete inputs\<close>

text \<open>
  A service with two seats and no license feature, a clock at second 1000, no failing
  call, and toy stand-ins for the libraries: the hash of a password \<open>p\<close> is
  \<open>''hash:'' @ p\<close>, a token is valid for the key \<open>k\<close> when its signature is
  \<open>''sig:'' @ k\<close>.
\<close>

definition tok_claims :: "int option \<Rightarrow> int option \<Rightarrow> ClaimsMessage" where
  "tok_claims iat exp =
     \<lparr>Name = ''alice@example.com'', Subject = ''1'', IssuedAt = iat, ExpiresAt = exp,
      NotBefore = None\<rparr>"

definition tok :: "string \<Rightarrow> string \<Rightarrow> int option \<Rightarrow> int option \<Rightarrow> Token" where
  "tok alg kid iat exp =
     \<lparr>Header_alg = Some (JString alg), Header_kid = Some (JString kid),
      Claims = tok_claims iat exp, SigningString = ''payload'', Signature = ''sig:s3cret''\<rparr>"

definition decode0 :: "string \<Rightarrow> Token option" where
  "decode0 t =
     (if t = ''t100'' then Some (tok ''HS256'' ''v1'' (Some 100) None)
      else if t = ''t200'' then Some (tok ''HS256'' ''v1'' (Some 200) (Some 5000))
      else if t = ''expired'' then Some (tok ''HS256'' ''v1'' (Some 50) (Some 900))
      else if t = ''kid2'' then Some (tok ''HS256'' ''v2'' (Some 60) None)
      else if t = ''hs384'' then Some (tok ''HS384'' ''v1'' (Some 70) None)
      else if t = ''nokid'' then
        Some ((tok ''HS256'' ''v1'' (Some 80) None)\<lparr>Header_kid := None\<rparr>)
      else None)"

definition env0 :: env where
  "env0 =
     \<lparr>Secret = ''s3cret'',
      IsFeatureEnabled = (\<lambda>f. False),
      Seats = 2,
      AccessTokenCookieName = ''slash.access-token'',
      AccessTokenDuration = 604800,
      getCurrentUser = Inr None,
      Now = 1000,
      fault = (\<lambda>c. None),
      insert_returning = (\<lambda>s u. \<lparr>ret_id = int (length (users s)) + 1, ret_created_ts = 1000,
                                  ret_updated_ts = 1000, ret_row_status = NORMAL\<rparr>),
      CompareHashAndPassword = (\<lambda>h p. h = ''hash:'' @ p),
      GenerateFromPassword = (\<lambda>p. Inr (''hash:'' @ p)),
      GenerateAccessToken = (\<lambda>email uid exp secret. Inr ''t100''),
      ParseUnverified = decode0,
      Verify = (\<lambda>method signingString signature key. signature = ''sig:'' @ key),
      jwt_error_text = (\<lambda>e. ''token error''),
      Format_RFC1123 = (\<lambda>t. ''Thu, 08 Jan 1970 00:16:40 UTC''),
      ValidateEmail = (\<lambda>e. CHR ''@'' \<in> set e),
      RandomString = Inr ''r4nd0m'',
      NewIdentityProvider = (\<lambda>c. None),
      ExchangeToken = (\<lambda>c redirect code. Inr ''provider-token''),
      UserInfo = (\<lambda>c t. Inr \<lparr>ui_Identifier = ''carol@example.com'',
                                ui_DisplayName = ''Carol''\<rparr>),
      convertVisibilityFromStorepb = (\<lambda>v. v),
      convertStateFromRowStatus = (\<lambda>r. if r = ARCHIVED then 2 else 1)\<rparr>"

definition alice :: User where
  "alice = \<lparr>ID = 1, CreatedTs = 10, UpdatedTs = 10, RowStatus = NORMAL,
     Email = ''alice@example.com'', Nickname = ''Alice'', PasswordHash = ''hash:pw-a'',
     Role = RoleAdmin\<rparr>"

definition bob :: User where
  "bob = \<lparr>ID = 2, CreatedTs = 20, UpdatedTs = 20, RowStatus = NORMAL,
     Email = ''bob@example.com'', Nickname = ''Bob'', PasswordHash = ''hash:pw-b'',
     Role = RoleUser\<rparr>"

definition store_empty :: Store where
  "store_empty = \<lparr>users = [], workspace_settings = [], user_access_tokens = (\<lambda>uid. [])\<rparr>"

definition store_a :: Store where
  "store_a = store_empty\<lparr>users := [alice]\<rparr>"

definition store_ab :: Store where
  "store_ab = store_empty\<lparr>users := [alice, bob]\<rparr>"

text \<open>
  A workspace with two identity providers: one of type OAuth2, and one whose type was
  never set (the zero value of the enumeration).
\<close>

definition oauth_cfg :: OAuth2Config where
  "oauth_cfg =
     \<lparr>ClientId = ''cid'', ClientSecret = ''top-secret'',
      AuthUrl = ''https://idp.example.com/auth'', TokenUrl = ''https://idp.example.com/token'',
      UserInfoUrl = ''https://idp.example.com/userinfo'', Scopes = [''email''],
      FieldMapping = Some \<lparr>Identifier = ''email'', DisplayName = ''name''\<rparr>\<rparr>"

definition idp_oauth :: IdentityProvider where
  "idp_oauth = \<lparr>Idp_Id = ''corp'', Idp_Title = ''Corp SSO'', Idp_Type = OAUTH2,
     Idp_Config = Some (Config_Oauth2 oauth_cfg)\<rparr>"

definition idp_untyped :: IdentityProvider where
  "idp_untyped = \<lparr>Idp_Id = ''legacy'', Idp_Title = ''Legacy'', Idp_Type = TYPE_UNSPECIFIED,
     Idp_Config = Some (Config_Oauth2 oauth_cfg)\<rparr>"

definition idp_setting :: WorkspaceSetting where
  "idp_setting = \<lparr>Key = WORKSPACE_SETTING_IDENTITY_PROVIDER,
     Value = Value_IdentityProvider [idp_oauth, idp_untyped]\<rparr>"

definition store_idp :: Store where
  "store_idp = store_ab\<lparr>workspace_settings := [idp_setting]\<rparr>"

definition store_idp_no_users :: Store where
  "store_idp_no_users = store_empty\<lparr>workspace_settings := [idp_setting]\<rparr>"

definition idp_setting_other :: WorkspaceSetting where
  "idp_setting_other = \<lparr>Key = WORKSPACE_SETTING_IDENTITY_PROVIDER,
     Value = Value_IdentityProvider
       [idp_oauth\<lparr>Idp_Config := Some (Config_Oauth2 (oauth_cfg\<lparr>ClientSecret := ''other''\<rparr>))\<rparr>,
        idp_untyped]\<rparr>"

definition store_idp_other_secret :: Store where
  "store_idp_other_secret = store_ab\<lparr>workspace_settings := [idp_setting_other]\<rparr>"

definition env_bob :: env where
  "env_bob = env0\<lparr>getCurrentUser := Inr (Some bob)\<rparr>"

definition env_sso :: env where
  "env_sso = env0\<lparr>IsFeatureEnabled := (\<lambda>f. f = FeatureTypeSSO)\<rparr>"

definition env_unlimited :: env where
  "env_unlimited = env0\<lparr>IsFeatureEnabled := (\<lambda>f. f = FeatureTypeUnlimitedAccounts)\<rparr>"

text \<open>Requests.\<close>

definition su0 :: SignUpRequest where
  "su0 = \<lparr>su_Email = ''carol@example.com'', su_Nickname = ''Carol'', su_Password = ''pw-c''\<rparr>"

definition sso0 :: SignInWithSSORequest where
  "sso0 = \<lparr>sso_IdpId = ''corp'', sso_Code = ''code'', sso_RedirectUri = ''https://x/cb''\<rparr>"

definition carol_info :: IdentityProviderUserInfo where
  "carol_info = \<lparr>ui_Identifier = ''carol@example.com'', ui_DisplayName = ''Carol''\<rparr>"

definition cu0 :: UserInput where
  "cu0 = \<lparr>in_Email = ''carol@example.com'', in_Nickname = ''Carol'', in_Password = ''pw-c''\<rparr>"

definition store_idp_a :: Store where
  "store_idp_a = store_a\<lparr>workspace_settings := [idp_setting]\<rparr>"

text \<open>
  Alice is the caller. Her persisted token list holds two valid tokens (issued at seconds
  200 and 100, in that order), an expired one, one with another key version and one with
  another algorithm. A second store holds the same raw token twice.
\<close>

definition env_alice :: env where
  "env_alice = env0\<lparr>getCurrentUser := Inr (Some alice)\<rparr>"

definition store_tokens :: Store where
  "store_tokens = store_ab\<lparr>user_access_tokens := (\<lambda>uid. if uid = 1 then
     [\<lparr>AccessToken = ''t200'', Description = ''cli''\<rparr>,
      \<lparr>AccessToken = ''expired'', Description = ''old login''\<rparr>,
      \<lparr>AccessToken = ''kid2'', Description = ''rotated''\<rparr>,
      \<lparr>AccessToken = ''hs384'', Description = ''forged''\<rparr>,
      \<lparr>AccessToken = ''t100'', Description = ''user login''\<rparr>] else [])\<rparr>"

definition store_dup :: Store where
  "store_dup = store_ab\<lparr>user_access_tokens := (\<lambda>uid. if uid = 1 then
     [\<lparr>AccessToken = ''t100'', Description = ''user login''\<rparr>,
      \<lparr>AccessToken = ''t200'', Description = ''cli''\<rparr>,
      \<lparr>AccessToken = ''t100'', Description = ''user login''\<rparr>] else [])\<rparr>"

text \<open>
  A service whose generator hands out a token of another key version (as after a key
  rotation that reached the generator only), and a request for a new access token.
\<close>

definition env_rotated :: env where
  "env_rotated = env_alice\<lparr>GenerateAccessToken := (\<lambda>email uid exp secret. Inr ''kid2'')\<rparr>"

definition cat0 :: CreateUserAccessTokenRequest where
  "cat0 = \<lparr>cat_Id = 1, cat_Description = ''ci'', cat_ExpiresAt = None\<rparr>"

section \<open>States that differ only in client secrets\<close>

text \<open>
  \<open>scrub_store\<close> blanks the client secret of every stored OAuth2 configuration. Two
  stores differ only in client secrets when their scrubbed forms are equal.
\<close>

definition scrub_idp :: "IdentityProvider \<Rightarrow> IdentityProvider" where
  "scrub_idp i =
     (case Idp_Config i of
        Some (Config_Oauth2 c) \<Rightarrow> i\<lparr>Idp_Config := Some (Config_Oauth2 (c\<lparr>ClientSecret := []\<rparr>))\<rparr>
      | _ \<Rightarrow> i)"

definition scrub_setting :: "WorkspaceSetting \<Rightarrow> WorkspaceSetting" where
  "scrub_setting v =
     (case Value v of
        Value_IdentityProvider l \<Rightarrow> v\<lparr>Value := Value_IdentityProvider (map scrub_idp l)\<rparr>
      | _ \<Rightarrow> v)"

definition scrub_store :: "Store \<Rightarrow> Store" where
  "scrub_store s = s\<lparr>workspace_settings := map scrub_setting (workspace_settings s)\<rparr>"

text \<open>The client secret an identity provider carries, if it has an OAuth2 configuration.\<close>

definition secret_of :: "IdentityProvider \<Rightarrow> string option" where
  "secret_of i = map_option ClientSecret (GetOauth2 (Idp_Config i))"

text \<open>The caller is anonymous, or a user whose role is not Admin.\<close>

definition not_admin :: "User option \<Rightarrow> bool" where
  "not_admin cu = (case cu of None \<Rightarrow> True | Some u \<Rightarrow> Role u \<noteq> RoleAdmin)"

section \<open>The invariant of the user set\<close>

text \<open>
  The spec's invariant on users: at least one Admin exists once any user exists.
\<close>

definition admin_exists :: "Store \<Rightarrow> bool" where
  "admin_exists s \<longleftrightarrow> users s = [] \<or> RoleAdmin \<in> set (map Role (users s))"

text \<open>
  Delete as the spec words it: the first record whose raw token string matches is removed,
  later records stay.
\<close>

fun spec_delete_first ::
  "string \<Rightarrow> UserSetting_AccessToken list \<Rightarrow> UserSetting_AccessToken list" where
  "spec_delete_first request_AccessToken [] = []"
| "spec_delete_first request_AccessToken (r # rs) =
     (if AccessToken r = request_AccessToken then rs
      else r # spec_delete_first request_AccessToken rs)"

section \<open>Facts about the store\<close>

lemma sort_key_Nil_iff: "(sort_key f xs = []) \<longleftrightarrow> (xs = [])"
  by (metis set_sort set_empty)

lemma DB_ListUsers_email_Nil:
  "(DB_ListUsers s (FindUser_empty\<lparr>find_Email := Some e\<rparr>) = []) \<longleftrightarrow>
   e \<notin> set (map Email (users s))"
  by (auto simp: DB_ListUsers_def matches_def FindUser_empty_def filter_empty_conv
        sort_key_Nil_iff)

lemma GetUser_bob:
  "Store_GetUser env0 c store_ab (FindUser_empty\<lparr>find_Email := Some ''bob@example.com''\<rparr>)
     = Inr (Some bob)"
  by (simp add: Store_GetUser_def env0_def DB_ListUsers_def store_ab_def store_empty_def
        matches_def FindUser_empty_def alice_def bob_def)

section \<open>Sign-out\<close>

text \<open>
  Claim C8. \<^verbatim>\<open>SignOut\<close> leaves the store as it was, whatever happens: the users, the
  workspace settings and every user's persisted access-token list are unchanged, so no
  token is revoked. When \<^verbatim>\<open>grpc.SetHeader\<close> succeeds, the one header it sets is a
  \<^verbatim>\<open>Set-Cookie\<close> of the session cookie with an empty value and
  \<^verbatim>\<open>Expires=Thu, 01 Jan 1970 00:00:00 GMT\<close>.
\<close>

theorem SignOut_only_clears_cookie:
  "snd (snd (SignOut env s)) = s \<and>
   user_access_tokens (snd (snd (SignOut env s))) = user_access_tokens s \<and>
   (fault env grpc_SetHeader = None \<longrightarrow>
      SignOut env s =
        (Inr (),
         [(''Set-Cookie'', AccessTokenCookieName env
             @ ''=; Path=/; Expires=Thu, 01 Jan 1970 00:00:00 GMT; HttpOnly; SameSite=Strict'')],
         s))"
  by (simp add: SignOut_def split: option.splits)

theorem SignOut_only_clears_cookie_witness:
  "fault env0 grpc_SetHeader = None \<and>
   SignOut env0 store_ab =
     (Inr (),
      [(''Set-Cookie'',
        ''slash.access-token=; Path=/; Expires=Thu, 01 Jan 1970 00:00:00 GMT; HttpOnly; SameSite=Strict'')],
      store_ab)"
  using SignOut_only_clears_cookie [of env0 store_ab] by (simp add: env0_def)

section \<open>Sign-in\<close>

text \<open>
  Claim C5. A sign-in for an email that no user has (the lookup itself succeeding), and a
  sign-in for which the lookup finds a user whose stored hash does not match the password,
  end in the same outcome: the status \<^verbatim>\<open>InvalidArgument\<close> with the message
  \<^verbatim>\<open>unmatched email and password\<close>, no header set, and the store unchanged.
\<close>

theorem SignIn_conflates_unknown_user_and_wrong_password:
  assumes "fault env1 SignIn_GetUser = None"
    and "req_Email r1 \<notin> set (map Email (users s1))"
    and "Store_GetUser env2 SignIn_GetUser s2
           (FindUser_empty\<lparr>find_Email := Some (req_Email r2)\<rparr>) = Inr (Some user)"
    and "\<not> CompareHashAndPassword env2 (PasswordHash user) (req_Password r2)"
  shows "SignIn env1 s1 r1 =
           (Inl (Status InvalidArgument ''unmatched email and password''), [], s1)
     \<and> SignIn env2 s2 r2 =
           (Inl (Status InvalidArgument ''unmatched email and password''), [], s2)
     \<and> fst (SignIn env1 s1 r1) = fst (SignIn env2 s2 r2)"
proof -
  have "DB_ListUsers s1 (FindUser_empty\<lparr>find_Email := Some (req_Email r1)\<rparr>) = []"
    using assms(2) by (simp add: DB_ListUsers_email_Nil)
  then have none: "Store_GetUser env1 SignIn_GetUser s1
      (FindUser_empty\<lparr>find_Email := Some (req_Email r1)\<rparr>) = Inr None"
    using assms(1) by (simp add: Store_GetUser_def)
  have unknown: "SignIn env1 s1 r1 =
      (Inl (Status InvalidArgument ''unmatched email and password''), [], s1)"
    by (simp add: SignIn_def none unmatchedEmailAndPasswordError_def)
  have wrong: "SignIn env2 s2 r2 =
      (Inl (Status InvalidArgument ''unmatched email and password''), [], s2)"
    using assms(3,4) by (simp add: SignIn_def unmatchedEmailAndPasswordError_def)
  show ?thesis using unknown wrong by simp
qed

theorem SignIn_conflates_unknown_user_and_wrong_password_witness:
  "fault env0 SignIn_GetUser = None
   \<and> ''nobody@example.com'' \<notin> set (map Email (users store_ab))
   \<and> Store_GetUser env0 SignIn_GetUser store_ab
        (FindUser_empty\<lparr>find_Email := Some ''bob@example.com''\<rparr>) = Inr (Some bob)
   \<and> \<not> CompareHashAndPassword env0 (PasswordHash bob) ''guess''
   \<and> SignIn env0 store_ab \<lparr>req_Email = ''nobody@example.com'', req_Password = ''guess''\<rparr> =
        (Inl (Status InvalidArgument ''unmatched email and password''), [], store_ab)
   \<and> SignIn env0 store_ab \<lparr>req_Email = ''bob@example.com'', req_Password = ''guess''\<rparr> =
        (Inl (Status InvalidArgument ''unmatched email and password''), [], store_ab)"
proof -
  have h1: "fault env0 SignIn_GetUser = None" by (simp add: env0_def)
  have h2: "''nobody@example.com'' \<notin> set (map Email (users store_ab))"
    by (simp add: store_ab_def store_empty_def alice_def bob_def)
  have h4: "\<not> CompareHashAndPassword env0 (PasswordHash bob) ''guess''"
    by (simp add: env0_def bob_def)
  show ?thesis
    using h1 h2 h4 GetUser_bob [of SignIn_GetUser]
      SignIn_conflates_unknown_user_and_wrong_password
        [of env0 "\<lparr>req_Email = ''nobody@example.com'', req_Password = ''guess''\<rparr>" store_ab
            env0 store_ab "\<lparr>req_Email = ''bob@example.com'', req_Password = ''guess''\<rparr>" bob]
    by simp
qed

section \<open>Token validation\<close>

text \<open>
  Claim C1. A token whose header algorithm is anything but \<^verbatim>\<open>HS256\<close>, or whose header
  \<^verbatim>\<open>kid\<close> is anything but the string \<^verbatim>\<open>v1\<close> (absent and non-string included), fails
  validation with the service's key function: \<^verbatim>\<open>ParseWithClaims\<close> returns an error and
  no claims. This holds for every signature check \<open>v\<close>, so also for a token signed with
  the right secret. The loop of \<^verbatim>\<open>ListUserAccessTokens\<close> skips the record, and
  \<^verbatim>\<open>CreateUserAccessToken\<close>, were it handed such a token by the generator, returns an
  internal error and stores nothing.
\<close>

theorem hostile_header_fails_validation:
  assumes "ParseUnverified env tokenString = Some t"
    and "Header_alg t \<noteq> Some (JString ''HS256'') \<or> Header_kid t \<noteq> Some (JString ''v1'')"
  shows "(\<exists>err. ParseWithClaims (env\<lparr>Verify := v\<rparr>) tokenString (keyFunc (Secret env)) = Inl err)
     \<and> list_loop env (\<lparr>AccessToken = tokenString, Description = d\<rparr> # rest) acc
         = list_loop env rest acc
     \<and> (getCurrentUser env = Inr (Some user) \<and> ID user = cat_Id request
          \<and> GenerateAccessToken env (Email user) (ID user) (cat_ExpiresAt request) (Secret env)
              = Inr tokenString
          \<longrightarrow> (\<exists>msg. CreateUserAccessToken env s request = (Inl (Status Internal msg), s)))"
proof -
  have key: "\<And>m. (\<exists>e. keyFunc (Secret env) m t = Inl e)
      \<or> (m = ''HS256'' \<and> Header_kid t = Some (JString ''v1''))"
    by (auto simp: keyFunc_def split: option.splits header_value.splits)
  have parse: "\<And>w. \<exists>err.
      ParseWithClaims (env\<lparr>Verify := w\<rparr>) tokenString (keyFunc (Secret env)) = Inl err"
    using assms key
    by (auto simp: ParseWithClaims_def GetSigningMethod_def keyFunc_def
          split: option.splits header_value.splits sum.splits)
  have "env\<lparr>Verify := Verify env\<rparr> = env" by simp
  with parse [of "Verify env"] obtain err
    where err: "ParseWithClaims env tokenString (keyFunc (Secret env)) = Inl err" by auto
  have create: "getCurrentUser env = Inr (Some user) \<and> ID user = cat_Id request
      \<and> GenerateAccessToken env (Email user) (ID user) (cat_ExpiresAt request) (Secret env)
          = Inr tokenString
      \<longrightarrow> (\<exists>msg. CreateUserAccessToken env s request = (Inl (Status Internal msg), s))"
    using err by (auto simp: CreateUserAccessToken_def)
  show ?thesis using parse err create by simp
qed

theorem hostile_header_fails_validation_witness:
  "ParseUnverified env0 ''kid2'' = Some (tok ''HS256'' ''v2'' (Some 60) None)
   \<and> Header_kid (tok ''HS256'' ''v2'' (Some 60) None) \<noteq> Some (JString ''v1'')
   \<and> Verify env0 ''HS256'' (SigningString (tok ''HS256'' ''v2'' (Some 60) None))
        (Signature (tok ''HS256'' ''v2'' (Some 60) None)) (Secret env0)
   \<and> ParseWithClaims env0 ''kid2'' (keyFunc (Secret env0))
        = Inl (TokenUnverifiable (UnexpectedKid (Some (JString ''v2''))))
   \<and> ParseUnverified env0 ''hs384'' = Some (tok ''HS384'' ''v1'' (Some 70) None)
   \<and> Header_alg (tok ''HS384'' ''v1'' (Some 70) None) \<noteq> Some (JString ''HS256'')
   \<and> (\<exists>err. ParseWithClaims env0 ''hs384'' (keyFunc (Secret env0)) = Inl err)
   \<and> Header_kid (the (ParseUnverified env0 ''nokid'')) = None
   \<and> (\<exists>err. ParseWithClaims env0 ''nokid'' (keyFunc (Secret env0)) = Inl err)
   \<and> getCurrentUser env_rotated = Inr (Some alice) \<and> ID alice = cat_Id cat0
   \<and> GenerateAccessToken env_rotated (Email alice) (ID alice) (cat_ExpiresAt cat0)
        (Secret env_rotated) = Inr ''kid2''
   \<and> CreateUserAccessToken env_rotated store_ab cat0
        = (Inl (Status Internal ''failed to parse access token: token error''), store_ab)"
proof -
  have d1: "ParseUnverified env0 ''kid2'' = Some (tok ''HS256'' ''v2'' (Some 60) None)"
    by (simp add: env0_def decode0_def)
  have d2: "ParseUnverified env0 ''hs384'' = Some (tok ''HS384'' ''v1'' (Some 70) None)"
    by (simp add: env0_def decode0_def)
  have b1: "Header_kid (tok ''HS256'' ''v2'' (Some 60) None) \<noteq> Some (JString ''v1'')"
    by (simp add: tok_def)
  have b2: "Header_alg (tok ''HS384'' ''v1'' (Some 70) None) \<noteq> Some (JString ''HS256'')"
    by (simp add: tok_def)
  have e: "env0\<lparr>Verify := Verify env0\<rparr> = env0" by simp
  have v: "Verify env0 ''HS256'' (SigningString (tok ''HS256'' ''v2'' (Some 60) None))
      (Signature (tok ''HS256'' ''v2'' (Some 60) None)) (Secret env0)"
    by (simp add: env0_def tok_def)
  have r: "ParseWithClaims env0 ''kid2'' (keyFunc (Secret env0))
      = Inl (TokenUnverifiable (UnexpectedKid (Some (JString ''v2''))))"
    using hostile_header_fails_validation [of env0 "''kid2''" _ "Verify env0", OF d1] b1
    by (simp add: e ParseWithClaims_def d1 tok_def GetSigningMethod_def
          registered_methods_def keyFunc_def)
  have d3: "ParseUnverified env0 ''nokid''
      = Some ((tok ''HS256'' ''v1'' (Some 80) None)\<lparr>Header_kid := None\<rparr>)"
    by (simp add: env0_def decode0_def)
  have d4: "ParseUnverified env_rotated ''kid2'' = Some (tok ''HS256'' ''v2'' (Some 60) None)"
    by (simp add: env_rotated_def env_alice_def env0_def decode0_def)
  have c1: "getCurrentUser env_rotated = Inr (Some alice) \<and> ID alice = cat_Id cat0"
    by (simp add: env_rotated_def env_alice_def alice_def cat0_def)
  have c2: "GenerateAccessToken env_rotated (Email alice) (ID alice) (cat_ExpiresAt cat0)
      (Secret env_rotated) = Inr ''kid2''"
    by (simp add: env_rotated_def)
  have p4: "\<exists>err. ParseWithClaims env_rotated ''kid2'' (keyFunc (Secret env_rotated)) = Inl err"
    using hostile_header_fails_validation
        [of env_rotated "''kid2''" _ "Verify env_rotated", OF d4] b1
    by simp
  have t: "jwt_error_text env_rotated = (\<lambda>e. ''token error'')"
    by (simp add: env_rotated_def env_alice_def env0_def)
  have c4: "CreateUserAccessToken env_rotated store_ab cat0
      = (Inl (Status Internal ''failed to parse access token: token error''), store_ab)"
    using p4 c1 c2 by (auto simp: CreateUserAccessToken_def t)
  show ?thesis
    using d1 d2 d3 b1 b2 v r c1 c2 c4
      hostile_header_fails_validation [of env0 "''hs384''" _ "Verify env0", OF d2]
      hostile_header_fails_validation [of env0 "''nokid''" _ "Verify env0", OF d3]
    by (simp add: e)
qed

section \<open>Single sign-on\<close>

text \<open>
  Claim C9. When the SSO feature is enabled and the request names a configured identity
  provider whose type is not OAuth2, no user info is produced (\<^verbatim>\<open>userInfo\<close> stays nil)
  and the handler goes on to read \<^verbatim>\<open>userInfo.Identifier\<close>: the call ends in a nil
  pointer dereference, not in a status error, with nothing written.
\<close>

theorem SignInWithSSO_non_oauth2_dereferences_nil:
  assumes "IsFeatureEnabled env FeatureTypeSSO"
    and "Store_GetWorkspaceSetting env SSO_GetWorkspaceSetting s
           WORKSPACE_SETTING_IDENTITY_PROVIDER = Inr (Some v)"
    and "GetIdentityProvider v = Some identityProviders"
    and "find (\<lambda>idp. Idp_Id idp = sso_IdpId request) identityProviders
           = Some identityProvider"
    and "Idp_Type identityProvider \<noteq> OAUTH2"
  shows "SSO_userInfo env identityProvider request = Inr None
     \<and> SignInWithSSO env s request = (Inl NilPointerDereference, [], s)"
proof -
  have nil: "SSO_userInfo env identityProvider request = Inr None"
    using assms(5) by (simp add: SSO_userInfo_def)
  show ?thesis using assms(1-4) nil by (simp add: SignInWithSSO_def)
qed

theorem SignInWithSSO_non_oauth2_dereferences_nil_witness:
  "IsFeatureEnabled env_sso FeatureTypeSSO
   \<and> Store_GetWorkspaceSetting env_sso SSO_GetWorkspaceSetting store_idp
        WORKSPACE_SETTING_IDENTITY_PROVIDER = Inr (Some idp_setting)
   \<and> GetIdentityProvider idp_setting = Some [idp_oauth, idp_untyped]
   \<and> find (\<lambda>idp. Idp_Id idp = ''legacy'') [idp_oauth, idp_untyped] = Some idp_untyped
   \<and> Idp_Type idp_untyped \<noteq> OAUTH2
   \<and> SignInWithSSO env_sso store_idp
        \<lparr>sso_IdpId = ''legacy'', sso_Code = ''code'', sso_RedirectUri = ''https://x/cb''\<rparr>
      = (Inl NilPointerDereference, [], store_idp)"
proof -
  have h1: "IsFeatureEnabled env_sso FeatureTypeSSO" by (simp add: env_sso_def)
  have h2: "Store_GetWorkspaceSetting env_sso SSO_GetWorkspaceSetting store_idp
      WORKSPACE_SETTING_IDENTITY_PROVIDER = Inr (Some idp_setting)"
    by (simp add: Store_GetWorkspaceSetting_def env_sso_def env0_def store_idp_def
          idp_setting_def)
  have h3: "GetIdentityProvider idp_setting = Some [idp_oauth, idp_untyped]"
    by (simp add: idp_setting_def)
  have h4: "find (\<lambda>idp. Idp_Id idp = ''legacy'') [idp_oauth, idp_untyped] = Some idp_untyped"
    by (simp add: idp_oauth_def idp_untyped_def)
  have h5: "Idp_Type idp_untyped \<noteq> OAUTH2" by (simp add: idp_untyped_def)
  show ?thesis
    using h1 h2 h3 h4 h5
      SignInWithSSO_non_oauth2_dereferences_nil
        [of env_sso store_idp idp_setting "[idp_oauth, idp_untyped]"
            "\<lparr>sso_IdpId = ''legacy'', sso_Code = ''code'', sso_RedirectUri = ''https://x/cb''\<rparr>"
            idp_untyped]
    by simp
qed

section \<open>Seat gating\<close>

lemma length_DB_ListUsers_all: "length (DB_ListUsers s FindUser_empty) = length (users s)"
  by (simp add: DB_ListUsers_def matches_def FindUser_empty_def)

lemma Upsert_users: "UpsertAccessTokenToStore env s u t d = (r, s') \<Longrightarrow> users s' = users s"
  by (auto simp: UpsertAccessTokenToStore_def Store_GetUserAccessTokens_def Store_UpsertUserSetting_def split: option.splits sum.splits)

lemma doSignIn_users: "doSignIn env s u e = (r, md, s') \<Longrightarrow> users s' = users s"
  by (auto simp: doSignIn_def Let_def split: option.splits sum.splits prod.splits dest: Upsert_users)

lemma Store_CreateUser_users:
  "Store_CreateUser env c s create = Inr (user, s') \<Longrightarrow> users s' = users s @ [user] \<and> Role user = Role create"
  by (auto simp: Store_CreateUser_def DB_CreateUser_def Let_def split: option.splits)

lemma checkSeatAvailability_full:
  assumes "\<not> IsFeatureEnabled env FeatureTypeUnlimitedAccounts" "fault env CheckSeat_ListUsers = None" "Seats env \<le> int (length (users s))"
  shows "checkSeatAvailability env s = Some (Status FailedPrecondition (''maximum number of users '' @ fmt_d (Seats env) @ '' reached''))"
  using assms by (simp add: checkSeatAvailability_def Store_ListUsers_def length_DB_ListUsers_all)

lemma checkSeatAvailability_free:
  assumes "\<not> IsFeatureEnabled env FeatureTypeUnlimitedAccounts" "fault env CheckSeat_ListUsers = None" "int (length (users s)) < Seats env"
  shows "checkSeatAvailability env s = None"
  using assms by (simp add: checkSeatAvailability_def Store_ListUsers_def length_DB_ListUsers_all)

lemma SignUp_blocked:
  assumes "checkSeatAvailability env s = Some e"
  shows "(\<exists>err. fst (SignUp env s r) = Inl err) \<and> snd (snd (SignUp env s r)) = s"
  using assms by (simp add: SignUp_def split: sum.splits)

lemma SignUp_blocked_exact:
  assumes "checkSeatAvailability env s = Some e" "Store_GetWorkspaceSecuritySetting env SignUp_GetWorkspaceSecuritySetting s = Inr sec" "\<not> DisallowUserRegistration sec"
  shows "SignUp env s r = (Inl e, [], s)"
  using assms by (simp add: SignUp_def)

lemma SSO_provision_blocked:
  assumes "checkSeatAvailability env s = Some e"
  shows "SSO_provision env s email ui = Inl e"
  using assms by (simp add: SSO_provision_def)

lemma SSO_blocked_users:
  assumes "checkSeatAvailability env s = Some e"
  shows "users (snd (snd (SignInWithSSO env s r))) = users s"
  using assms
  by (auto simp: SignInWithSSO_def SSO_provision_blocked Let_def split: sum.splits option.splits prod.splits dest: doSignIn_users)

lemma SSO_blocked_exact:
  assumes "checkSeatAvailability env s = Some e"
   and "IsFeatureEnabled env FeatureTypeSSO"
    and "Store_GetWorkspaceSetting env SSO_GetWorkspaceSetting s
           WORKSPACE_SETTING_IDENTITY_PROVIDER = Inr (Some v)"
    and "GetIdentityProvider v = Some identityProviders"
    and "find (\<lambda>idp. Idp_Id idp = sso_IdpId request) identityProviders
           = Some identityProvider"
    and "SSO_userInfo env identityProvider request = Inr (Some userInfo)"
    and "ValidateEmail env (ui_Identifier userInfo)"
    and "Store_GetUser env SSO_GetUser s (FindUser_empty\<lparr>find_Email := Some (ui_Identifier userInfo)\<rparr>) = Inr None"
  shows "SignInWithSSO env s request = (Inl e, [], s)"
  using assms by (simp add: SignInWithSSO_def SSO_provision_blocked)

text \<open>
  Claim C6. With the unlimited-accounts feature disabled and the user count (the listing
  itself succeeding) at or above the licensed seats, \<^verbatim>\<open>checkSeatAvailability\<close> returns
  the \<^verbatim>\<open>FailedPrecondition\<close> error naming the limit. \<^verbatim>\<open>SignUp\<close> then fails and
  leaves the store as it was; it fails with that very error once its earlier guard (the
  registration setting) has let the request through. The auto-provision block of
  \<^verbatim>\<open>SignInWithSSO\<close> fails with that error, the handler creates no user, and a
  request that reaches auto-provision (no user has the provider's email) returns that
  error with the store unchanged. With the count below the seats the check passes, and
  with the feature enabled it never rejects.
\<close>

theorem seat_gating:
  "(\<not> IsFeatureEnabled env FeatureTypeUnlimitedAccounts \<and> fault env CheckSeat_ListUsers = None
      \<and> Seats env \<le> int (length (users s)) \<longrightarrow>
        checkSeatAvailability env s = Some (Status FailedPrecondition
          (''maximum number of users '' @ fmt_d (Seats env) @ '' reached''))
      \<and> (\<exists>err. fst (SignUp env s su) = Inl err) \<and> snd (snd (SignUp env s su)) = s
      \<and> (Store_GetWorkspaceSecuritySetting env SignUp_GetWorkspaceSecuritySetting s = Inr sec
           \<and> \<not> DisallowUserRegistration sec \<longrightarrow>
           SignUp env s su = (Inl (Status FailedPrecondition
             (''maximum number of users '' @ fmt_d (Seats env) @ '' reached'')), [], s))
      \<and> SSO_provision env s email userInfo = Inl (Status FailedPrecondition
             (''maximum number of users '' @ fmt_d (Seats env) @ '' reached''))
      \<and> users (snd (snd (SignInWithSSO env s sso))) = users s
      \<and> (IsFeatureEnabled env FeatureTypeSSO
           \<and> Store_GetWorkspaceSetting env SSO_GetWorkspaceSetting s
                 WORKSPACE_SETTING_IDENTITY_PROVIDER = Inr (Some v)
           \<and> GetIdentityProvider v = Some identityProviders
           \<and> find (\<lambda>idp. Idp_Id idp = sso_IdpId sso) identityProviders = Some identityProvider
           \<and> SSO_userInfo env identityProvider sso = Inr (Some info)
           \<and> ValidateEmail env (ui_Identifier info)
           \<and> Store_GetUser env SSO_GetUser s
                 (FindUser_empty\<lparr>find_Email := Some (ui_Identifier info)\<rparr>) = Inr None \<longrightarrow>
           SignInWithSSO env s sso = (Inl (Status FailedPrecondition
             (''maximum number of users '' @ fmt_d (Seats env) @ '' reached'')), [], s)))
   \<and> (\<not> IsFeatureEnabled env FeatureTypeUnlimitedAccounts \<and> fault env CheckSeat_ListUsers = None
      \<and> int (length (users s)) < Seats env \<longrightarrow> checkSeatAvailability env s = None)
   \<and> (IsFeatureEnabled env FeatureTypeUnlimitedAccounts \<longrightarrow> checkSeatAvailability env s = None)"
proof (intro conjI impI)
  assume full: "\<not> IsFeatureEnabled env FeatureTypeUnlimitedAccounts \<and> fault env CheckSeat_ListUsers = None
      \<and> Seats env \<le> int (length (users s))"
  then show c: "checkSeatAvailability env s = Some (Status FailedPrecondition
          (''maximum number of users '' @ fmt_d (Seats env) @ '' reached''))"
    by (simp add: checkSeatAvailability_full)
  show "\<exists>err. fst (SignUp env s su) = Inl err" using SignUp_blocked [OF c] by simp
  show "snd (snd (SignUp env s su)) = s" using SignUp_blocked [OF c] by simp
  show "SSO_provision env s email userInfo = Inl (Status FailedPrecondition
             (''maximum number of users '' @ fmt_d (Seats env) @ '' reached''))"
    by (rule SSO_provision_blocked [OF c])
  show "users (snd (snd (SignInWithSSO env s sso))) = users s"
    by (rule SSO_blocked_users [OF c])
  {
    assume "Store_GetWorkspaceSecuritySetting env SignUp_GetWorkspaceSecuritySetting s = Inr sec
           \<and> \<not> DisallowUserRegistration sec"
    then show "SignUp env s su = (Inl (Status FailedPrecondition
             (''maximum number of users '' @ fmt_d (Seats env) @ '' reached'')), [], s)"
      using SignUp_blocked_exact [OF c] by simp
  }
  {
    assume "IsFeatureEnabled env FeatureTypeSSO
           \<and> Store_GetWorkspaceSetting env SSO_GetWorkspaceSetting s
                 WORKSPACE_SETTING_IDENTITY_PROVIDER = Inr (Some v)
           \<and> GetIdentityProvider v = Some identityProviders
           \<and> find (\<lambda>idp. Idp_Id idp = sso_IdpId sso) identityProviders = Some identityProvider
           \<and> SSO_userInfo env identityProvider sso = Inr (Some info)
           \<and> ValidateEmail env (ui_Identifier info)
           \<and> Store_GetUser env SSO_GetUser s
                 (FindUser_empty\<lparr>find_Email := Some (ui_Identifier info)\<rparr>) = Inr None"
    then show "SignInWithSSO env s sso = (Inl (Status FailedPrecondition
             (''maximum number of users '' @ fmt_d (Seats env) @ '' reached'')), [], s)"
      using SSO_blocked_exact [OF c] by blast
  }
next
  assume "\<not> IsFeatureEnabled env FeatureTypeUnlimitedAccounts \<and> fault env CheckSeat_ListUsers = None
      \<and> int (length (users s)) < Seats env"
  then show "checkSeatAvailability env s = None" by (simp add: checkSeatAvailability_free)
next
  assume "IsFeatureEnabled env FeatureTypeUnlimitedAccounts"
  then show "checkSeatAvailability env s = None" by (simp add: checkSeatAvailability_def)
qed


theorem seat_gating_witness:
  "\<not> IsFeatureEnabled env_sso FeatureTypeUnlimitedAccounts
   \<and> fault env_sso CheckSeat_ListUsers = None
   \<and> Seats env_sso \<le> int (length (users store_idp))
   \<and> checkSeatAvailability env_sso store_idp
       = Some (Status FailedPrecondition ''maximum number of users 2 reached'')
   \<and> SignUp env_sso store_idp su0
       = (Inl (Status FailedPrecondition ''maximum number of users 2 reached''), [], store_idp)
   \<and> SignInWithSSO env_sso store_idp sso0
       = (Inl (Status FailedPrecondition ''maximum number of users 2 reached''), [], store_idp)
   \<and> int (length (users store_a)) < Seats env0
   \<and> checkSeatAvailability env0 store_a = None
   \<and> IsFeatureEnabled env_unlimited FeatureTypeUnlimitedAccounts
   \<and> checkSeatAvailability env_unlimited store_ab = None"
proof -
  have a1: "\<not> IsFeatureEnabled env_sso FeatureTypeUnlimitedAccounts"
    by (simp add: env_sso_def)
  have a2: "fault env_sso CheckSeat_ListUsers = None" by (simp add: env_sso_def env0_def)
  have a3: "Seats env_sso \<le> int (length (users store_idp))"
    by (simp add: env_sso_def env0_def store_idp_def store_ab_def)
  have n: "fmt_d (Seats env_sso) = ''2''"
    by (simp add: env_sso_def env0_def fmt_d_def digits.simps)
  have b1: "Store_GetWorkspaceSecuritySetting env_sso SignUp_GetWorkspaceSecuritySetting store_idp
      = Inr SecuritySetting_zero"
    by (simp add: Store_GetWorkspaceSecuritySetting_def env_sso_def env0_def store_idp_def
          idp_setting_def)
  have b2: "\<not> DisallowUserRegistration SecuritySetting_zero"
    by (simp add: SecuritySetting_zero_def)
  have c1: "IsFeatureEnabled env_sso FeatureTypeSSO" by (simp add: env_sso_def)
  have c2: "Store_GetWorkspaceSetting env_sso SSO_GetWorkspaceSetting store_idp
      WORKSPACE_SETTING_IDENTITY_PROVIDER = Inr (Some idp_setting)"
    by (simp add: Store_GetWorkspaceSetting_def env_sso_def env0_def store_idp_def
          idp_setting_def)
  have c3: "GetIdentityProvider idp_setting = Some [idp_oauth, idp_untyped]"
    by (simp add: idp_setting_def)
  have c4: "find (\<lambda>idp. Idp_Id idp = sso_IdpId sso0) [idp_oauth, idp_untyped] = Some idp_oauth"
    by (simp add: idp_oauth_def sso0_def)
  have c5: "SSO_userInfo env_sso idp_oauth sso0 = Inr (Some carol_info)"
    by (simp add: SSO_userInfo_def idp_oauth_def env_sso_def env0_def carol_info_def)
  have c6: "ValidateEmail env_sso (ui_Identifier carol_info)"
    by (simp add: env_sso_def env0_def carol_info_def)
  have c7: "Store_GetUser env_sso SSO_GetUser store_idp
      (FindUser_empty\<lparr>find_Email := Some (ui_Identifier carol_info)\<rparr>) = Inr None"
    by (simp add: Store_GetUser_def env_sso_def env0_def DB_ListUsers_def store_idp_def
          store_ab_def store_empty_def matches_def FindUser_empty_def alice_def bob_def
          carol_info_def)
  have d1: "\<not> IsFeatureEnabled env0 FeatureTypeUnlimitedAccounts" by (simp add: env0_def)
  have d2: "fault env0 CheckSeat_ListUsers = None" by (simp add: env0_def)
  have d3: "int (length (users store_a)) < Seats env0"
    by (simp add: env0_def store_a_def)
  have e1: "IsFeatureEnabled env_unlimited FeatureTypeUnlimitedAccounts"
    by (simp add: env_unlimited_def)
  show ?thesis
    using a1 a2 a3 b1 b2 c1 c2 c3 c4 c5 c6 c7 d1 d2 d3 e1
      seat_gating [of env_sso store_idp su0 SecuritySetting_zero _ _ sso0 idp_setting
        "[idp_oauth, idp_untyped]" idp_oauth carol_info]
      seat_gating [of env0 store_a]
      seat_gating [of env_unlimited store_ab]
    by (simp add: n)
qed

section \<open>Roles of created users\<close>

lemma SignUp_effect:
  assumes "SignUp env s r = (res, md, s')"
  shows "users s' = users s \<or> (\<exists>u. users s' = users s @ [u] \<and> Role u = (if users s = [] then RoleAdmin else RoleUser))"
  using assms
  by (auto simp: SignUp_def Let_def Store_ListUsers_def DB_ListUsers_def sort_key_Nil_iff matches_def FindUser_empty_def
      split: sum.splits option.splits prod.splits if_splits
      dest!: doSignIn_users Store_CreateUser_users)

lemma SignUp_reply:
  assumes "SignUp env s r = (Inr reply, md, s')"
  shows "v1_Role reply = (if users s = [] then ADMIN else USER) \<and> (\<exists>u. users s' = users s @ [u] \<and> Role u = (if users s = [] then RoleAdmin else RoleUser))"
  using assms
  by (auto simp: SignUp_def Let_def Store_ListUsers_def DB_ListUsers_def sort_key_Nil_iff matches_def FindUser_empty_def convertUserFromStore_def
      split: sum.splits option.splits prod.splits if_splits
      dest!: doSignIn_users Store_CreateUser_users)

lemma CreateUser_effect:
  assumes "CreateUser env s r = (res, s')"
  shows "users s' = users s \<or> (\<exists>u. users s' = users s @ [u] \<and> Role u = RoleUser)"
  using assms
  by (auto simp: CreateUser_def split: sum.splits option.splits prod.splits dest!: Store_CreateUser_users)

lemma SSO_provision_effect:
  assumes "SSO_provision env s email ui = Inr (u, s')"
  shows "users s' = users s @ [u] \<and> Role u = RoleUser"
  using assms
  by (auto simp: SSO_provision_def Let_def split: sum.splits option.splits prod.splits dest!: Store_CreateUser_users)

lemma SignInWithSSO_effect:
  assumes "SignInWithSSO env s r = (res, md, s')"
  shows "users s' = users s \<or> (\<exists>u. users s' = users s @ [u] \<and> Role u = RoleUser)"
  using assms
  by (auto simp: SignInWithSSO_def Let_def split: sum.splits option.splits prod.splits if_splits dest!: doSignIn_users SSO_provision_effect)


text \<open>
  Claim C2, as stated, fails: \<^verbatim>\<open>CreateUser\<close> and the auto-provision of
  \<^verbatim>\<open>SignInWithSSO\<close> give the new user the role User also when the user set is empty,
  and the store then holds a user and no Admin.
\<close>

theorem CreateUser_and_SSO_break_admin_invariant:
  "admin_exists store_empty
   \<and> map Role (users (snd (CreateUser env0 store_empty (Some cu0)))) = [RoleUser]
   \<and> \<not> admin_exists (snd (CreateUser env0 store_empty (Some cu0)))
   \<and> map Role (users (snd (snd (SignInWithSSO env_sso store_idp_no_users sso0)))) = [RoleUser]
   \<and> \<not> admin_exists (snd (snd (SignInWithSSO env_sso store_idp_no_users sso0)))"
proof -
  have 1: "users (snd (CreateUser env0 store_empty (Some cu0))) =
    [\<lparr>ID = 1, CreatedTs = 1000, UpdatedTs = 1000, RowStatus = NORMAL,
      Email = ''carol@example.com'', Nickname = ''Carol'',
      PasswordHash = ''hash:pw-c'', Role = RoleUser\<rparr>]"
    by (simp add: CreateUser_def env0_def cu0_def checkSeatAvailability_def Store_ListUsers_def
        DB_ListUsers_def store_empty_def Store_CreateUser_def DB_CreateUser_def Let_def)
  have 2: "users (snd (snd (SignInWithSSO env_sso store_idp_no_users sso0))) =
    [\<lparr>ID = 1, CreatedTs = 1000, UpdatedTs = 1000, RowStatus = NORMAL,
      Email = ''carol@example.com'', Nickname = ''Carol'',
      PasswordHash = ''hash:r4nd0m'', Role = RoleUser\<rparr>]"
    by (simp add: SignInWithSSO_def env_sso_def env0_def sso0_def store_idp_no_users_def
        Store_GetWorkspaceSetting_def idp_setting_def idp_oauth_def idp_untyped_def
        SSO_userInfo_def Store_GetUser_def SSO_provision_def
        checkSeatAvailability_def Store_ListUsers_def
        DB_ListUsers_def store_empty_def Store_CreateUser_def DB_CreateUser_def Let_def
        doSignIn_def UpsertAccessTokenToStore_def Store_GetUserAccessTokens_def
        Store_UpsertUserSetting_def)
  show ?thesis
    by (simp add: 1 2 admin_exists_def) (simp add: store_empty_def)
qed

text \<open>
  Claim C2, amended. \<^verbatim>\<open>SignUp\<close> either leaves the users as they were or appends one
  user, whose role is Admin if and only if no user existed, and User otherwise; a
  successful reply carries that role; and \<^verbatim>\<open>SignUp\<close> preserves the invariant that an
  Admin exists once any user exists. \<^verbatim>\<open>CreateUser\<close> and \<^verbatim>\<open>SignInWithSSO\<close> either
  leave the users as they were or append one user of role User; they preserve the
  invariant from every state that already has a user.
\<close>

theorem user_creation_roles:
  "(users (snd (snd (SignUp env s su))) = users s
      \<or> (\<exists>u. users (snd (snd (SignUp env s su))) = users s @ [u]
             \<and> Role u = (if users s = [] then RoleAdmin else RoleUser)))
   \<and> (fst (SignUp env s su) = Inr reply \<longrightarrow>
         v1_Role reply = (if users s = [] then ADMIN else USER)
       \<and> (\<exists>u. users (snd (snd (SignUp env s su))) = users s @ [u]
             \<and> Role u = (if users s = [] then RoleAdmin else RoleUser)))
   \<and> (admin_exists s \<longrightarrow> admin_exists (snd (snd (SignUp env s su))))
   \<and> (users (snd (CreateUser env s cu)) = users s
      \<or> (\<exists>u. users (snd (CreateUser env s cu)) = users s @ [u] \<and> Role u = RoleUser))
   \<and> (users s \<noteq> [] \<and> admin_exists s \<longrightarrow> admin_exists (snd (CreateUser env s cu)))
   \<and> (users (snd (snd (SignInWithSSO env s sso))) = users s
      \<or> (\<exists>u. users (snd (snd (SignInWithSSO env s sso))) = users s @ [u] \<and> Role u = RoleUser))
   \<and> (users s \<noteq> [] \<and> admin_exists s \<longrightarrow> admin_exists (snd (snd (SignInWithSSO env s sso))))"
proof -
  obtain r1 m1 s1 where su: "SignUp env s su = (r1, m1, s1)" by (metis prod_cases3)
  obtain r2 s2 where cu: "CreateUser env s cu = (r2, s2)" by (metis surj_pair)
  obtain r3 m3 s3 where sso: "SignInWithSSO env s sso = (r3, m3, s3)" by (metis prod_cases3)
  note e1 = SignUp_effect [OF su] and e2 = CreateUser_effect [OF cu] and e3 = SignInWithSSO_effect [OF sso]
  have a: "users s1 = users s
      \<or> (\<exists>u. users s1 = users s @ [u] \<and> Role u = (if users s = [] then RoleAdmin else RoleUser))"
    using e1 .
  have b: "r1 = Inr reply \<longrightarrow> v1_Role reply = (if users s = [] then ADMIN else USER)
       \<and> (\<exists>u. users s1 = users s @ [u] \<and> Role u = (if users s = [] then RoleAdmin else RoleUser))"
    using SignUp_reply [of env s su reply m1 s1] su by simp
  have c: "admin_exists s \<longrightarrow> admin_exists s1"
    using e1 by (auto simp: admin_exists_def)
  have d: "users s \<noteq> [] \<and> admin_exists s \<longrightarrow> admin_exists s2"
    using e2 by (auto simp: admin_exists_def)
  have e: "users s \<noteq> [] \<and> admin_exists s \<longrightarrow> admin_exists s3"
    using e3 by (auto simp: admin_exists_def)
  show ?thesis
    unfolding su cu sso fst_conv snd_conv using a b c d e e2 e3 by blast
qed

lemmas eval_defs = SignUp_def CreateUser_def SignInWithSSO_def env_sso_def env0_def sso0_def su0_def cu0_def
        store_idp_a_def store_a_def store_empty_def alice_def
        Store_GetWorkspaceSetting_def Store_GetWorkspaceSecuritySetting_def SecuritySetting_zero_def idp_setting_def idp_oauth_def idp_untyped_def
        SSO_userInfo_def Store_GetUser_def SSO_provision_def
        checkSeatAvailability_def Store_ListUsers_def matches_def FindUser_empty_def
        DB_ListUsers_def Store_CreateUser_def DB_CreateUser_def Let_def
        doSignIn_def UpsertAccessTokenToStore_def Store_GetUserAccessTokens_def
        Store_UpsertUserSetting_def convertUserFromStore_def

theorem user_creation_roles_witness:
  "admin_exists store_empty
   \<and> fst (SignUp env0 store_empty su0) =
        Inr \<lparr>v1_Id = 1, v1_State = 1, v1_CreatedTime = 1000, v1_UpdatedTime = 1000,
             v1_Role = ADMIN, v1_Email = ''carol@example.com'', v1_Nickname = ''Carol''\<rparr>
   \<and> map Role (users (snd (snd (SignUp env0 store_empty su0)))) = [RoleAdmin]
   \<and> admin_exists (snd (snd (SignUp env0 store_empty su0)))
   \<and> users store_a \<noteq> [] \<and> admin_exists store_a
   \<and> map Role (users (snd (snd (SignUp env0 store_a su0)))) = [RoleAdmin, RoleUser]
   \<and> admin_exists (snd (snd (SignUp env0 store_a su0)))
   \<and> map Role (users (snd (CreateUser env0 store_a (Some cu0)))) = [RoleAdmin, RoleUser]
   \<and> admin_exists (snd (CreateUser env0 store_a (Some cu0)))
   \<and> users store_idp_a \<noteq> [] \<and> admin_exists store_idp_a
   \<and> map Role (users (snd (snd (SignInWithSSO env_sso store_idp_a sso0)))) = [RoleAdmin, RoleUser]
   \<and> admin_exists (snd (snd (SignInWithSSO env_sso store_idp_a sso0)))"
proof -
  have a0: "admin_exists store_empty" by (simp add: admin_exists_def store_empty_def)
  have a1: "users store_a \<noteq> [] \<and> admin_exists store_a"
    by (simp add: admin_exists_def store_a_def store_empty_def alice_def)
  have a2: "users store_idp_a \<noteq> [] \<and> admin_exists store_idp_a"
    by (simp add: admin_exists_def store_idp_a_def store_a_def store_empty_def alice_def)
  have r1: "fst (SignUp env0 store_empty su0) =
        Inr \<lparr>v1_Id = 1, v1_State = 1, v1_CreatedTime = 1000, v1_UpdatedTime = 1000,
             v1_Role = ADMIN, v1_Email = ''carol@example.com'', v1_Nickname = ''Carol''\<rparr>"
    by (simp add: eval_defs)
  have u1: "map Role (users (snd (snd (SignUp env0 store_empty su0)))) = [RoleAdmin]"
    by (simp add: eval_defs)
  have u2: "map Role (users (snd (snd (SignUp env0 store_a su0)))) = [RoleAdmin, RoleUser]"
    by (simp add: eval_defs)
  have u3: "map Role (users (snd (CreateUser env0 store_a (Some cu0)))) = [RoleAdmin, RoleUser]"
    by (simp add: eval_defs)
  have u4: "map Role (users (snd (snd (SignInWithSSO env_sso store_idp_a sso0)))) = [RoleAdmin, RoleUser]"
    by (simp add: eval_defs)
  show ?thesis
    using a0 a1 a2 r1 u1 u2 u3 u4
      user_creation_roles [of env0 store_empty su0 _ "Some cu0" sso0]
      user_creation_roles [of env0 store_a su0 _ "Some cu0" sso0]
      user_creation_roles [of env_sso store_idp_a su0 _ "Some cu0" sso0]
    by simp
qed

section \<open>The access-token registry\<close>

lemma delete_loop_filter:
  "delete_loop tk xs acc = acc @ filter (\<lambda>r. AccessToken r \<noteq> tk) xs"
  by (induction xs arbitrary: acc) auto

lemma spec_delete_first_filter:
  "length (filter (\<lambda>r. AccessToken r = tk) xs) \<le> 1 \<Longrightarrow>
   spec_delete_first tk xs = filter (\<lambda>r. AccessToken r \<noteq> tk) xs"
proof (induction xs)
  case Nil
  then show ?case by simp
next
  case (Cons x xs)
  show ?case
  proof (cases "AccessToken x = tk")
    case True
    with Cons.prems have "filter (\<lambda>r. AccessToken r = tk) xs = []" by simp
    then have "filter (\<lambda>r. AccessToken r \<noteq> tk) xs = xs"
      by (simp add: filter_empty_conv filter_id_conv)
    with True show ?thesis by simp
  next
    case False
    with Cons show ?thesis by simp
  qed
qed

lemma mset_insert_left: "mset (insert_left cmp x ys) = add_mset x (mset ys)"
  by (induction ys) auto

lemma mset_foldl_insert_left:
  "mset (foldl (\<lambda>prefix e. insert_left cmp e prefix) acc xs) = mset acc + mset xs"
  by (induction xs arbitrary: acc) (auto simp: mset_insert_left)

lemma mset_SortFunc: "mset (SortFunc xs cmp) = mset xs"
  by (simp add: SortFunc_def mset_foldl_insert_left)

lemma list_loop_result:
  "list_loop env ts acc = Inr out \<Longrightarrow>
   map (\<lambda>r. (v1_AccessToken r, v1_Description r)) out =
   map (\<lambda>r. (v1_AccessToken r, v1_Description r)) acc @
   map (\<lambda>t. (AccessToken t, Description t))
     (filter (\<lambda>t. \<not> isl (ParseWithClaims env (AccessToken t) (keyFunc (Secret env)))) ts)"
proof (induction ts arbitrary: acc)
  case Nil
  then show ?case by simp
next
  case (Cons t ts)
  then show ?case
    by (auto split: sum.splits option.splits)
qed

lemma list_loop_total:
  "(\<forall>t\<in>set ts. \<forall>c. ParseWithClaims env (AccessToken t) (keyFunc (Secret env)) = Inr c \<longrightarrow> IssuedAt c \<noteq> None)
   \<Longrightarrow> \<exists>out. list_loop env ts acc = Inr out"
proof (induction ts arbitrary: acc)
  case Nil
  then show ?case by simp
next
  case (Cons t ts)
  then show ?case
    by (auto split: sum.splits option.splits)
qed


lemmas token_eval = ListUserAccessTokens_def env_alice_def env0_def alice_def
  Store_GetUserAccessTokens_def store_tokens_def ParseWithClaims_def decode0_def tok_def
  tok_claims_def GetSigningMethod_def registered_methods_def keyFunc_def validate_claims_def
  SortFunc_def cmp_IssuedAt_def

lemmas delete_eval = DeleteUserAccessToken_def env_alice_def env0_def alice_def
  Store_GetUserAccessTokens_def Store_UpsertUserSetting_def store_dup_def

text \<open>
  Claim C4, as stated, fails: with the same raw token stored twice, the delete removes both
  records, where removing the first match would leave the later one.
\<close>

theorem DeleteUserAccessToken_removes_later_duplicates:
  "user_access_tokens store_dup 1 =
     [\<lparr>AccessToken = ''t100'', Description = ''user login''\<rparr>,
      \<lparr>AccessToken = ''t200'', Description = ''cli''\<rparr>,
      \<lparr>AccessToken = ''t100'', Description = ''user login''\<rparr>]
   \<and> fst (DeleteUserAccessToken env_alice store_dup ''t100'') = Inr ()
   \<and> user_access_tokens (snd (DeleteUserAccessToken env_alice store_dup ''t100'')) 1 =
     [\<lparr>AccessToken = ''t200'', Description = ''cli''\<rparr>]
   \<and> spec_delete_first ''t100'' (user_access_tokens store_dup 1) =
     [\<lparr>AccessToken = ''t200'', Description = ''cli''\<rparr>,
      \<lparr>AccessToken = ''t100'', Description = ''user login''\<rparr>]
   \<and> user_access_tokens (snd (DeleteUserAccessToken env_alice store_dup ''t100'')) 1
       \<noteq> spec_delete_first ''t100'' (user_access_tokens store_dup 1)"
  by (simp add: delete_eval)

text \<open>
  Claim C4, amended. When the caller is known and the two store calls succeed,
  \<^verbatim>\<open>DeleteUserAccessToken\<close> writes back the caller's whole list without every record
  whose raw token string equals the argument (the first and all later ones), the other
  records in their order, and touches nothing else. When at most one record matches, this
  is the list without the first match.
\<close>

theorem DeleteUserAccessToken_removes_every_match:
  assumes "getCurrentUser env = Inr (Some user)"
    and "fault env Delete_GetUserAccessTokens = None"
    and "fault env Delete_UpsertUserSetting = None"
  shows "DeleteUserAccessToken env s tk =
      (Inr (), s\<lparr>user_access_tokens := (user_access_tokens s)
          (ID user := filter (\<lambda>r. AccessToken r \<noteq> tk) (user_access_tokens s (ID user)))\<rparr>)
    \<and> (length (filter (\<lambda>r. AccessToken r = tk) (user_access_tokens s (ID user))) \<le> 1 \<longrightarrow>
        user_access_tokens (snd (DeleteUserAccessToken env s tk)) (ID user)
          = spec_delete_first tk (user_access_tokens s (ID user)))"
  using assms
  by (simp add: DeleteUserAccessToken_def Store_GetUserAccessTokens_def Store_UpsertUserSetting_def
      delete_loop_filter spec_delete_first_filter)

text \<open>The amended C4 at Alice's list with a duplicate, and at a token stored once.\<close>

theorem DeleteUserAccessToken_removes_every_match_witness:
  "getCurrentUser env_alice = Inr (Some alice)
   \<and> fault env_alice Delete_GetUserAccessTokens = None
   \<and> fault env_alice Delete_UpsertUserSetting = None
   \<and> user_access_tokens (snd (DeleteUserAccessToken env_alice store_dup ''t100'')) 1 =
        [\<lparr>AccessToken = ''t200'', Description = ''cli''\<rparr>]
   \<and> length (filter (\<lambda>r. AccessToken r = ''t200'') (user_access_tokens store_dup (ID alice))) \<le> 1
   \<and> user_access_tokens (snd (DeleteUserAccessToken env_alice store_dup ''t200'')) 1 =
        [\<lparr>AccessToken = ''t100'', Description = ''user login''\<rparr>,
         \<lparr>AccessToken = ''t100'', Description = ''user login''\<rparr>]
   \<and> spec_delete_first ''t200'' (user_access_tokens store_dup 1) =
        [\<lparr>AccessToken = ''t100'', Description = ''user login''\<rparr>,
         \<lparr>AccessToken = ''t100'', Description = ''user login''\<rparr>]
   \<and> users (snd (DeleteUserAccessToken env_alice store_dup ''t100'')) = users store_dup
   \<and> user_access_tokens (snd (DeleteUserAccessToken env_alice store_dup ''t100'')) 2 = []"
proof -
  have h1: "getCurrentUser env_alice = Inr (Some alice)" by (simp add: env_alice_def)
  have h2: "fault env_alice Delete_GetUserAccessTokens = None"
    by (simp add: env_alice_def env0_def)
  have h3: "fault env_alice Delete_UpsertUserSetting = None"
    by (simp add: env_alice_def env0_def)
  have i: "ID alice = 1" by (simp add: alice_def)
  have l: "user_access_tokens store_dup 1 =
     [\<lparr>AccessToken = ''t100'', Description = ''user login''\<rparr>,
      \<lparr>AccessToken = ''t200'', Description = ''cli''\<rparr>,
      \<lparr>AccessToken = ''t100'', Description = ''user login''\<rparr>]"
    "user_access_tokens store_dup 2 = []"
    by (simp_all add: store_dup_def)
  show ?thesis
    using h1 h2 h3
      DeleteUserAccessToken_removes_every_match [OF h1 h2 h3, of store_dup "''t100''"]
      DeleteUserAccessToken_removes_every_match [OF h1 h2 h3, of store_dup "''t200''"]
    by (simp add: i l)
qed

text \<open>
  Claim C7. \<^verbatim>\<open>ListUserAccessTokens\<close> never writes: the store it leaves is the store
  it found, so records that fail validation stay in the persisted list. When it returns a
  list, the records of that list (raw token and description) are, as a multiset, exactly
  the persisted records of the caller whose token passes validation now. It does return a
  list when the caller is the user asked for, the read succeeds, and every token that
  passes validation carries an issued-at claim.
\<close>

theorem ListUserAccessTokens_prunes_without_writing:
  "snd (ListUserAccessTokens env s rid) = s
   \<and> (fst (ListUserAccessTokens env s rid) = Inr result \<longrightarrow>
        mset (map (\<lambda>r. (v1_AccessToken r, v1_Description r)) result)
          = mset (map (\<lambda>t. (AccessToken t, Description t))
              (filter (\<lambda>t. \<not> isl (ParseWithClaims env (AccessToken t) (keyFunc (Secret env))))
                 (user_access_tokens s rid))))
   \<and> (getCurrentUser env = Inr (Some user) \<and> ID user = rid
        \<and> fault env List_GetUserAccessTokens = None
        \<and> (\<forall>t\<in>set (user_access_tokens s rid). \<forall>c.
              ParseWithClaims env (AccessToken t) (keyFunc (Secret env)) = Inr c
              \<longrightarrow> IssuedAt c \<noteq> None)
        \<longrightarrow> (\<exists>result. fst (ListUserAccessTokens env s rid) = Inr result))"
proof (intro conjI impI)
  show "snd (ListUserAccessTokens env s rid) = s"
    by (simp add: ListUserAccessTokens_def split: sum.splits option.splits)
next
  assume r: "fst (ListUserAccessTokens env s rid) = Inr result"
  then obtain out where l: "list_loop env (user_access_tokens s rid) [] = Inr out"
    and res: "result = SortFunc out cmp_IssuedAt"
    by (auto simp: ListUserAccessTokens_def Store_GetUserAccessTokens_def
          split: sum.splits option.splits if_splits)
  have "mset (map (\<lambda>r. (v1_AccessToken r, v1_Description r)) result)
      = mset (map (\<lambda>r. (v1_AccessToken r, v1_Description r)) out)"
    unfolding res mset_map mset_SortFunc ..
  then show "mset (map (\<lambda>r. (v1_AccessToken r, v1_Description r)) result)
          = mset (map (\<lambda>t. (AccessToken t, Description t))
              (filter (\<lambda>t. \<not> isl (ParseWithClaims env (AccessToken t) (keyFunc (Secret env))))
                 (user_access_tokens s rid)))"
    using list_loop_result [OF l] by simp
next
  assume a: "getCurrentUser env = Inr (Some user) \<and> ID user = rid
        \<and> fault env List_GetUserAccessTokens = None
        \<and> (\<forall>t\<in>set (user_access_tokens s rid). \<forall>c.
              ParseWithClaims env (AccessToken t) (keyFunc (Secret env)) = Inr c
              \<longrightarrow> IssuedAt c \<noteq> None)"
  then obtain out where "list_loop env (user_access_tokens s rid) [] = Inr out"
    using list_loop_total [of "user_access_tokens s rid" env "[]"] by blast
  with a show "\<exists>result. fst (ListUserAccessTokens env s rid) = Inr result"
    by (simp add: ListUserAccessTokens_def Store_GetUserAccessTokens_def)
qed

text \<open>C7 at Alice's list: two of the five records pass validation, all five stay stored.\<close>

theorem ListUserAccessTokens_prunes_without_writing_witness:
  "getCurrentUser env_alice = Inr (Some alice) \<and> ID alice = 1
   \<and> fault env_alice List_GetUserAccessTokens = None
   \<and> filter (\<lambda>t. \<not> isl (ParseWithClaims env_alice (AccessToken t) (keyFunc (Secret env_alice))))
        (user_access_tokens store_tokens 1) =
        [\<lparr>AccessToken = ''t200'', Description = ''cli''\<rparr>,
         \<lparr>AccessToken = ''t100'', Description = ''user login''\<rparr>]
   \<and> ParseWithClaims env_alice ''expired'' (keyFunc (Secret env_alice)) = Inl TokenExpired
   \<and> (\<exists>result. fst (ListUserAccessTokens env_alice store_tokens 1) = Inr result
        \<and> mset (map (\<lambda>r. (v1_AccessToken r, v1_Description r)) result) =
            {#(''t200'', ''cli''), (''t100'', ''user login'')#})
   \<and> snd (ListUserAccessTokens env_alice store_tokens 1) = store_tokens
   \<and> map AccessToken (user_access_tokens (snd (ListUserAccessTokens env_alice store_tokens 1)) 1)
        = [''t200'', ''expired'', ''kid2'', ''hs384'', ''t100'']"
proof -
  have h1: "getCurrentUser env_alice = Inr (Some alice) \<and> ID alice = 1"
    by (simp add: env_alice_def alice_def)
  have h2: "fault env_alice List_GetUserAccessTokens = None"
    by (simp add: env_alice_def env0_def)
  have f: "filter (\<lambda>t. \<not> isl (ParseWithClaims env_alice (AccessToken t) (keyFunc (Secret env_alice))))
        (user_access_tokens store_tokens 1) =
        [\<lparr>AccessToken = ''t200'', Description = ''cli''\<rparr>,
         \<lparr>AccessToken = ''t100'', Description = ''user login''\<rparr>]"
    by (simp add: token_eval)
  have e: "ParseWithClaims env_alice ''expired'' (keyFunc (Secret env_alice)) = Inl TokenExpired"
    by (simp add: token_eval)
  have h3: "\<forall>t\<in>set (user_access_tokens store_tokens 1). \<forall>c.
      ParseWithClaims env_alice (AccessToken t) (keyFunc (Secret env_alice)) = Inr c
      \<longrightarrow> IssuedAt c \<noteq> None"
    by (simp add: token_eval)
  have l: "map AccessToken (user_access_tokens store_tokens 1)
        = [''t200'', ''expired'', ''kid2'', ''hs384'', ''t100'']"
    by (simp add: store_tokens_def)
  from ListUserAccessTokens_prunes_without_writing [of env_alice store_tokens 1 _ alice] h1 h2 h3
  obtain result where r: "fst (ListUserAccessTokens env_alice store_tokens 1) = Inr result"
    by blast
  have m: "mset (map (\<lambda>r. (v1_AccessToken r, v1_Description r)) result) =
            {#(''t200'', ''cli''), (''t100'', ''user login'')#}"
    using ListUserAccessTokens_prunes_without_writing [of env_alice store_tokens 1 result alice] r
    by (simp add: f)
  have w: "snd (ListUserAccessTokens env_alice store_tokens 1) = store_tokens"
    using ListUserAccessTokens_prunes_without_writing [of env_alice store_tokens 1 result alice]
    by simp
  show ?thesis using h1 h2 f e r m w l by auto
qed

text \<open>
  The order of the list. With issued-at seconds that are not negative (so that the
  64-bit subtraction does not overflow), the comparison is negative exactly when its first
  argument was issued earlier, and the sorted list is ascending by issued-at.
\<close>

lemma cmp_IssuedAt_neg_iff:
  assumes "0 \<le> sint (v1_IssuedAt a)" "0 \<le> sint (v1_IssuedAt b)"
  shows "cmp_IssuedAt a b < 0 \<longleftrightarrow> sint (v1_IssuedAt a) < sint (v1_IssuedAt b)"
proof -
  have ub: "sint (v1_IssuedAt a) < 2 ^ 63" "sint (v1_IssuedAt b) < 2 ^ 63"
    using sint_lt [of "v1_IssuedAt a"] sint_lt [of "v1_IssuedAt b"] by simp_all
  have "sint (v1_IssuedAt a - v1_IssuedAt b) = signed_take_bit 63 (sint (v1_IssuedAt a) - sint (v1_IssuedAt b))"
    by (simp add: sint_word_ariths)
  also have "\<dots> = sint (v1_IssuedAt a) - sint (v1_IssuedAt b)"
    using assms ub by (intro signed_take_bit_int_eq_self) auto
  finally show ?thesis by (simp add: cmp_IssuedAt_def)
qed

lemma set_insert_left: "set (insert_left cmp x ys) = insert x (set ys)"
  by (induction ys) auto

lemma insert_left_desc:
  assumes "\<forall>r\<in>set (x # p). 0 \<le> sint (v1_IssuedAt r)"
    and "sorted_wrt (\<lambda>a b. sint (v1_IssuedAt b) \<le> sint (v1_IssuedAt a)) p"
  shows "sorted_wrt (\<lambda>a b. sint (v1_IssuedAt b) \<le> sint (v1_IssuedAt a)) (insert_left cmp_IssuedAt x p)"
  using assms
proof (induction p)
  case Nil
  then show ?case by simp
next
  case (Cons y p)
  show ?case
  proof (cases "cmp_IssuedAt x y < 0")
    case True
    then have "sint (v1_IssuedAt x) < sint (v1_IssuedAt y)"
      using Cons.prems(1) by (simp add: cmp_IssuedAt_neg_iff)
    with Cons True show ?thesis by (auto simp: set_insert_left)
  next
    case False
    then have "sint (v1_IssuedAt y) \<le> sint (v1_IssuedAt x)"
      using Cons.prems(1) by (simp add: cmp_IssuedAt_neg_iff)
    with Cons False show ?thesis by auto
  qed
qed

lemma foldl_insert_left_desc:
  assumes "\<forall>r\<in>set (xs @ p). 0 \<le> sint (v1_IssuedAt r)"
    and "sorted_wrt (\<lambda>a b. sint (v1_IssuedAt b) \<le> sint (v1_IssuedAt a)) p"
  shows "sorted_wrt (\<lambda>a b. sint (v1_IssuedAt b) \<le> sint (v1_IssuedAt a))
           (foldl (\<lambda>prefix e. insert_left cmp_IssuedAt e prefix) p xs)"
  using assms
proof (induction xs arbitrary: p)
  case Nil
  then show ?case by simp
next
  case (Cons x xs)
  have "sorted_wrt (\<lambda>a b. sint (v1_IssuedAt b) \<le> sint (v1_IssuedAt a)) (insert_left cmp_IssuedAt x p)"
    using Cons.prems by (intro insert_left_desc) auto
  moreover have "\<forall>r\<in>set (xs @ insert_left cmp_IssuedAt x p). 0 \<le> sint (v1_IssuedAt r)"
    using Cons.prems(1) by (auto simp: set_insert_left)
  ultimately show ?case using Cons.IH by simp
qed

lemma SortFunc_ascending:
  assumes "\<forall>r\<in>set xs. 0 \<le> sint (v1_IssuedAt r)"
  shows "sorted_wrt (\<lambda>a b. sint (v1_IssuedAt a) \<le> sint (v1_IssuedAt b)) (SortFunc xs cmp_IssuedAt)"
proof -
  have "sorted_wrt (\<lambda>a b. sint (v1_IssuedAt b) \<le> sint (v1_IssuedAt a))
           (foldl (\<lambda>prefix e. insert_left cmp_IssuedAt e prefix) [] xs)"
    using assms by (intro foldl_insert_left_desc) auto
  then show ?thesis
    by (simp add: SortFunc_def sorted_wrt_rev)
qed

lemma set_SortFunc: "set (SortFunc xs cmp) = set xs"
proof -
  have "\<And>p. set (foldl (\<lambda>prefix e. insert_left cmp e prefix) p xs) = set p \<union> set xs"
    by (induction xs) (auto simp: set_insert_left)
  then show ?thesis by (simp add: SortFunc_def)
qed

lemma ListUserAccessTokens_ascending:
  assumes "fst (ListUserAccessTokens env s rid) = Inr result"
    and "\<forall>r\<in>set result. 0 \<le> sint (v1_IssuedAt r)"
  shows "sorted_wrt (\<lambda>a b. sint (v1_IssuedAt a) \<le> sint (v1_IssuedAt b)) result"
proof -
  from assms(1) obtain out where res: "result = SortFunc out cmp_IssuedAt"
    by (auto simp: ListUserAccessTokens_def split: sum.splits option.splits if_splits)
  have "set out = set result"
    unfolding res by (simp add: set_SortFunc)
  with assms(2) SortFunc_ascending [of out] res show ?thesis by simp
qed

text \<open>
  Claim C3, at a concrete input. Alice's persisted list holds the token issued at second
  200 before the one issued at second 100; \<^verbatim>\<open>ListUserAccessTokens\<close> returns the one
  issued at 100 first: ascending by issued-at (as \<open>ListUserAccessTokens_ascending\<close> has
  it in general), where the claim and the comment on line 444 say descending.
\<close>

theorem ListUserAccessTokens_orders_ascending:
  "user_access_tokens store_tokens 1 =
     [\<lparr>AccessToken = ''t200'', Description = ''cli''\<rparr>,
      \<lparr>AccessToken = ''expired'', Description = ''old login''\<rparr>,
      \<lparr>AccessToken = ''kid2'', Description = ''rotated''\<rparr>,
      \<lparr>AccessToken = ''hs384'', Description = ''forged''\<rparr>,
      \<lparr>AccessToken = ''t100'', Description = ''user login''\<rparr>]
   \<and> fst (ListUserAccessTokens env_alice store_tokens 1) =
     Inr [\<lparr>v1_AccessToken = ''t100'', v1_Description = ''user login'',
           v1_IssuedAt = 100, v1_ExpiresAt = None\<rparr>,
          \<lparr>v1_AccessToken = ''t200'', v1_Description = ''cli'',
           v1_IssuedAt = 200, v1_ExpiresAt = Some 5000\<rparr>]"
  by (simp add: token_eval)

section \<open>Redaction of the OAuth2 client secret\<close>

lemma redact_blank:
  "not_admin cu \<Longrightarrow> GetOauth2 (Idp_Config (redact cu i)) = Some c \<Longrightarrow> ClientSecret c = []"
  by (cases "Idp_Config i" rule: GetOauth2.cases) (auto simp: redact_def not_admin_def split: option.splits)

lemma idp_loop_blank:
  "not_admin cu \<Longrightarrow> idp_loop cu idps out = Inr res \<Longrightarrow>
   \<forall>i\<in>set out. \<forall>c. GetOauth2 (Idp_Config i) = Some c \<longrightarrow> ClientSecret c = [] \<Longrightarrow>
   \<forall>i\<in>set res. \<forall>c. GetOauth2 (Idp_Config i) = Some c \<longrightarrow> ClientSecret c = []"
proof (induction idps arbitrary: out)
  case Nil
  then show ?case by simp
next
  case (Cons a idps)
  from Cons.prems(2) obtain a' where a': "convertIdentityProviderFromStore a = Inr a'"
    and rest: "idp_loop cu idps (out @ [redact cu a']) = Inr res"
    by (auto split: sum.splits)
  have "\<forall>i\<in>set (out @ [redact cu a']). \<forall>c. GetOauth2 (Idp_Config i) = Some c \<longrightarrow> ClientSecret c = []"
    using Cons.prems(1,3) redact_blank by auto
  from Cons.IH [OF Cons.prems(1) rest this] show ?case .
qed

lemma setting_step_blank:
  assumes "not_admin cu" "setting_step env cu ws v = Inr ws'"
    "\<forall>i\<in>set (v1_IdentityProviders ws). \<forall>c. GetOauth2 (Idp_Config i) = Some c \<longrightarrow> ClientSecret c = []"
  shows "\<forall>i\<in>set (v1_IdentityProviders ws'). \<forall>c. GetOauth2 (Idp_Config i) = Some c \<longrightarrow> ClientSecret c = []"
proof (cases "Key v = WORKSPACE_SETTING_IDENTITY_PROVIDER")
  case True
  with assms(2) obtain res where l: "idp_loop cu (case GetIdentityProvider v of None \<Rightarrow> [] | Some l \<Rightarrow> l) [] = Inr res"
    and ws': "ws' = ws\<lparr>v1_IdentityProviders := res\<rparr>"
    by (auto simp: setting_step_def split: sum.splits)
  from idp_loop_blank [OF assms(1) l] show ?thesis by (simp add: ws')
next
  case False
  with assms(2,3) show ?thesis
    by (auto simp: setting_step_def split: if_splits)
qed

lemma settings_loop_blank:
  "not_admin cu \<Longrightarrow> settings_loop env cu vs ws = Inr ws' \<Longrightarrow>
   \<forall>i\<in>set (v1_IdentityProviders ws). \<forall>c. GetOauth2 (Idp_Config i) = Some c \<longrightarrow> ClientSecret c = [] \<Longrightarrow>
   \<forall>i\<in>set (v1_IdentityProviders ws'). \<forall>c. GetOauth2 (Idp_Config i) = Some c \<longrightarrow> ClientSecret c = []"
proof (induction vs arbitrary: ws)
  case Nil
  then show ?case by simp
next
  case (Cons v vs)
  from Cons.prems(2) obtain w1 where s1: "setting_step env cu ws v = Inr w1"
    and rest: "settings_loop env cu vs w1 = Inr ws'"
    by (auto split: sum.splits)
  from Cons.IH [OF Cons.prems(1) rest setting_step_blank [OF Cons.prems(1) s1 Cons.prems(3)]]
  show ?case .
qed

lemma convert_redact_scrub:
  "not_admin cu \<Longrightarrow>
   map_sum id (redact cu) (convertIdentityProviderFromStore (scrub_idp i))
   = map_sum id (redact cu) (convertIdentityProviderFromStore i)"
  by (cases "Idp_Config i" rule: GetOauth2.cases)
     (auto simp: scrub_idp_def convertIdentityProviderFromStore_def convertIdentityProviderConfigFromStore_def
        redact_def not_admin_def split: option.splits)

lemma idp_loop_scrub:
  "not_admin cu \<Longrightarrow> idp_loop cu (map scrub_idp idps) out = idp_loop cu idps out"
proof (induction idps arbitrary: out)
  case Nil
  then show ?case by simp
next
  case (Cons a idps)
  from convert_redact_scrub [OF Cons.prems, of a] Cons.IH [OF Cons.prems]
  show ?case
    by (cases "convertIdentityProviderFromStore a"; cases "convertIdentityProviderFromStore (scrub_idp a)") auto
qed

lemma setting_step_scrub:
  "not_admin cu \<Longrightarrow> setting_step env cu ws (scrub_setting v) = setting_step env cu ws v"
  by (cases "Value v") (auto simp: setting_step_def scrub_setting_def idp_loop_scrub)

lemma settings_loop_scrub:
  "not_admin cu \<Longrightarrow> settings_loop env cu (map scrub_setting vs) ws = settings_loop env cu vs ws"
  by (induction vs arbitrary: ws) (auto simp: setting_step_scrub split: sum.splits)

lemma GetWorkspaceSetting_scrub:
  "getCurrentUser env = Inr cu \<Longrightarrow> not_admin cu \<Longrightarrow>
   fst (GetWorkspaceSetting env (scrub_store s)) = fst (GetWorkspaceSetting env s)"
  by (auto simp: GetWorkspaceSetting_def Store_ListWorkspaceSettings_def scrub_store_def settings_loop_scrub
      split: option.splits)


lemma convert_secret:
  "convertIdentityProviderFromStore i = Inr i' \<Longrightarrow> secret_of i' = secret_of i"
  by (cases "Idp_Config i" rule: GetOauth2.cases)
     (auto simp: convertIdentityProviderFromStore_def convertIdentityProviderConfigFromStore_def
        secret_of_def split: option.splits sum.splits)

lemma redact_admin: "Role u = RoleAdmin \<Longrightarrow> redact (Some u) i = i"
  by (simp add: redact_def)

lemma idp_loop_admin:
  "Role u = RoleAdmin \<Longrightarrow> idp_loop (Some u) l out = Inr res \<Longrightarrow>
   map secret_of res = map secret_of out @ map secret_of l"
proof (induction l arbitrary: out)
  case Nil
  then show ?case by simp
next
  case (Cons a l)
  from Cons.prems(2) obtain a' where a': "convertIdentityProviderFromStore a = Inr a'"
    and rest: "idp_loop (Some u) l (out @ [redact (Some u) a']) = Inr res"
    by (auto split: sum.splits)
  from Cons.IH [OF Cons.prems(1) rest] show ?case
    by (simp add: redact_admin [OF Cons.prems(1)] convert_secret [OF a'])
qed

lemma settings_loop_append:
  "settings_loop env cu (xs @ ys) ws =
     (case settings_loop env cu xs ws of Inl e \<Rightarrow> Inl e | Inr w \<Rightarrow> settings_loop env cu ys w)"
  by (induction xs arbitrary: ws) (auto split: sum.splits)

lemma settings_loop_other_keys:
  "\<forall>w\<in>set vs. Key w \<noteq> WORKSPACE_SETTING_IDENTITY_PROVIDER \<Longrightarrow>
   settings_loop env cu vs ws = Inr ws' \<Longrightarrow>
   v1_IdentityProviders ws' = v1_IdentityProviders ws"
proof (induction vs arbitrary: ws)
  case Nil
  then show ?case by simp
next
  case (Cons v vs)
  from Cons.prems(2) obtain w1 where s1: "setting_step env cu ws v = Inr w1"
    and rest: "settings_loop env cu vs w1 = Inr ws'"
    by (auto split: sum.splits)
  have "v1_IdentityProviders w1 = v1_IdentityProviders ws"
    using s1 Cons.prems(1) by (auto simp: setting_step_def split: if_splits)
  with Cons.IH [OF _ rest] Cons.prems(1) show ?case by simp
qed

lemma settings_loop_admin:
  assumes "Role u = RoleAdmin"
    and "Key v = WORKSPACE_SETTING_IDENTITY_PROVIDER" and "GetIdentityProvider v = Some l"
    and "\<forall>w\<in>set post. Key w \<noteq> WORKSPACE_SETTING_IDENTITY_PROVIDER"
    and "settings_loop env (Some u) (pre @ v # post) ws0 = Inr ws"
  shows "map secret_of (v1_IdentityProviders ws) = map secret_of l"
proof -
  from assms(5) obtain w1 w2 where
    "settings_loop env (Some u) pre ws0 = Inr w1"
    and step: "setting_step env (Some u) w1 v = Inr w2"
    and post: "settings_loop env (Some u) post w2 = Inr ws"
    by (auto simp: settings_loop_append split: sum.splits)
  from step assms(2,3) obtain res where l: "idp_loop (Some u) l [] = Inr res"
    and w2: "w2 = w1\<lparr>v1_IdentityProviders := res\<rparr>"
    by (auto simp: setting_step_def split: sum.splits)
  from idp_loop_admin [OF assms(1) l] have "map secret_of res = map secret_of l" by simp
  with settings_loop_other_keys [OF assms(4) post] w2 show ?thesis by simp
qed

text \<open>
  Claim C10. For a caller that is anonymous or not an Admin, every OAuth2 configuration in
  the reply of \<^verbatim>\<open>GetWorkspaceSetting\<close> has the empty client secret, and the outcome of
  the call is the same on two stores that differ only in client secrets. For an Admin, the
  providers of the reply carry the stored client secrets: those of the last stored setting
  with the identity-provider key, in order.
\<close>

theorem GetWorkspaceSetting_redacts_client_secret:
  "(getCurrentUser env = Inr cu \<and> not_admin cu \<longrightarrow>
      (fst (GetWorkspaceSetting env s) = Inr ws \<longrightarrow>
         (\<forall>i\<in>set (v1_IdentityProviders ws). \<forall>c.
            GetOauth2 (Idp_Config i) = Some c \<longrightarrow> ClientSecret c = []))
      \<and> (scrub_store s = scrub_store s2 \<longrightarrow>
          fst (GetWorkspaceSetting env s) = fst (GetWorkspaceSetting env s2)))
   \<and> (getCurrentUser env = Inr (Some u) \<and> Role u = RoleAdmin
        \<and> workspace_settings s = pre @ v # post
        \<and> Key v = WORKSPACE_SETTING_IDENTITY_PROVIDER \<and> GetIdentityProvider v = Some l
        \<and> (\<forall>w\<in>set post. Key w \<noteq> WORKSPACE_SETTING_IDENTITY_PROVIDER)
        \<and> fst (GetWorkspaceSetting env s) = Inr ws \<longrightarrow>
      map secret_of (v1_IdentityProviders ws) = map secret_of l)"
proof (intro conjI impI)
  assume a: "getCurrentUser env = Inr cu \<and> not_admin cu"
  {
    assume "fst (GetWorkspaceSetting env s) = Inr ws"
    with a have "settings_loop env cu (workspace_settings s) WorkspaceSetting_v1_zero = Inr ws"
      by (auto simp: GetWorkspaceSetting_def Store_ListWorkspaceSettings_def split: option.splits)
    from settings_loop_blank [OF _ this] a
    show "\<forall>i\<in>set (v1_IdentityProviders ws). \<forall>c.
            GetOauth2 (Idp_Config i) = Some c \<longrightarrow> ClientSecret c = []"
      by (simp add: WorkspaceSetting_v1_zero_def)
  }
  {
    assume "scrub_store s = scrub_store s2"
    with GetWorkspaceSetting_scrub [of env cu s] GetWorkspaceSetting_scrub [of env cu s2] a
    show "fst (GetWorkspaceSetting env s) = fst (GetWorkspaceSetting env s2)" by simp
  }
next
  assume b: "getCurrentUser env = Inr (Some u) \<and> Role u = RoleAdmin
        \<and> workspace_settings s = pre @ v # post
        \<and> Key v = WORKSPACE_SETTING_IDENTITY_PROVIDER \<and> GetIdentityProvider v = Some l
        \<and> (\<forall>w\<in>set post. Key w \<noteq> WORKSPACE_SETTING_IDENTITY_PROVIDER)
        \<and> fst (GetWorkspaceSetting env s) = Inr ws"
  then have "settings_loop env (Some u) (pre @ v # post) WorkspaceSetting_v1_zero = Inr ws"
    by (auto simp: GetWorkspaceSetting_def Store_ListWorkspaceSettings_def split: option.splits)
  from settings_loop_admin [OF _ _ _ _ this] b
  show "map secret_of (v1_IdentityProviders ws) = map secret_of l" by blast
qed

lemmas setting_eval = GetWorkspaceSetting_def Store_ListWorkspaceSettings_def env_bob_def
  env_alice_def env0_def alice_def bob_def store_idp_def store_idp_other_secret_def
  idp_setting_def idp_setting_other_def idp_oauth_def idp_untyped_def oauth_cfg_def
  setting_step_def convertIdentityProviderFromStore_def
  convertIdentityProviderConfigFromStore_def redact_def WorkspaceSetting_v1_zero_def
  secret_of_def

text \<open>
  C10 at a workspace with two providers: the anonymous caller and Bob get empty secrets,
  and Bob's reply is the same when a stored secret is changed; Alice, an Admin, gets the
  stored secrets.
\<close>

theorem GetWorkspaceSetting_redacts_client_secret_witness:
  "getCurrentUser env0 = Inr None \<and> not_admin None
   \<and> getCurrentUser env_bob = Inr (Some bob) \<and> not_admin (Some bob)
   \<and> (\<exists>ws. fst (GetWorkspaceSetting env0 store_idp) = Inr ws
         \<and> map secret_of (v1_IdentityProviders ws) = [Some [], Some []])
   \<and> (\<exists>ws. fst (GetWorkspaceSetting env_bob store_idp) = Inr ws
         \<and> map secret_of (v1_IdentityProviders ws) = [Some [], Some []])
   \<and> workspace_settings store_idp \<noteq> workspace_settings store_idp_other_secret
   \<and> scrub_store store_idp = scrub_store store_idp_other_secret
   \<and> fst (GetWorkspaceSetting env_bob store_idp)
       = fst (GetWorkspaceSetting env_bob store_idp_other_secret)
   \<and> getCurrentUser env_alice = Inr (Some alice) \<and> Role alice = RoleAdmin
   \<and> workspace_settings store_idp_other_secret = [] @ idp_setting_other # []
   \<and> map secret_of (case GetIdentityProvider idp_setting_other of Some l \<Rightarrow> l | None \<Rightarrow> [])
       = [Some ''other'', Some ''top-secret'']
   \<and> (\<exists>ws. fst (GetWorkspaceSetting env_alice store_idp_other_secret) = Inr ws
         \<and> map secret_of (v1_IdentityProviders ws) = [Some ''other'', Some ''top-secret''])"
proof -
  have a1: "getCurrentUser env0 = Inr None \<and> not_admin None"
    by (simp add: env0_def not_admin_def)
  have a2: "getCurrentUser env_bob = Inr (Some bob) \<and> not_admin (Some bob)"
    by (simp add: env_bob_def not_admin_def bob_def)
  have a3: "getCurrentUser env_alice = Inr (Some alice) \<and> Role alice = RoleAdmin"
    by (simp add: env_alice_def alice_def)
  obtain w0 where w0: "fst (GetWorkspaceSetting env0 store_idp) = Inr w0"
    by (simp add: setting_eval)
  obtain w1 where w1: "fst (GetWorkspaceSetting env_bob store_idp) = Inr w1"
    by (simp add: setting_eval)
  obtain w2 where w2: "fst (GetWorkspaceSetting env_alice store_idp_other_secret) = Inr w2"
    by (simp add: setting_eval)
  have d: "workspace_settings store_idp \<noteq> workspace_settings store_idp_other_secret"
    by (simp add: setting_eval)
  have sc: "scrub_store store_idp = scrub_store store_idp_other_secret"
    by (simp add: scrub_store_def scrub_setting_def scrub_idp_def setting_eval)
  have st: "workspace_settings store_idp_other_secret = [] @ idp_setting_other # []"
    by (simp add: store_idp_other_secret_def)
  have k: "Key idp_setting_other = WORKSPACE_SETTING_IDENTITY_PROVIDER"
    "GetIdentityProvider idp_setting_other = Some
       [idp_oauth\<lparr>Idp_Config := Some (Config_Oauth2 (oauth_cfg\<lparr>ClientSecret := ''other''\<rparr>))\<rparr>,
        idp_untyped]"
    by (simp_all add: idp_setting_other_def)
  have sec: "map secret_of
       [idp_oauth\<lparr>Idp_Config := Some (Config_Oauth2 (oauth_cfg\<lparr>ClientSecret := ''other''\<rparr>))\<rparr>,
        idp_untyped] = [Some ''other'', Some ''top-secret'']"
    by (simp add: setting_eval)
  have e0: "map secret_of (v1_IdentityProviders w0) = [Some [], Some []]"
    using w0 by (auto simp: setting_eval)
  have e1: "map secret_of (v1_IdentityProviders w1) = [Some [], Some []]"
    using w1 by (auto simp: setting_eval)
  note t0 = GetWorkspaceSetting_redacts_client_secret
      [of env0 None store_idp w0 store_idp_other_secret]
  note t1 = GetWorkspaceSetting_redacts_client_secret
      [of env_bob "Some bob" store_idp w1 store_idp_other_secret]
  note t2 = GetWorkspaceSetting_redacts_client_secret
      [of env_alice _ store_idp_other_secret w2 _ alice "[]" idp_setting_other "[]"
          "[idp_oauth\<lparr>Idp_Config := Some (Config_Oauth2 (oauth_cfg\<lparr>ClientSecret := ''other''\<rparr>))\<rparr>,
            idp_untyped]"]
  have eq: "fst (GetWorkspaceSetting env_bob store_idp)
       = fst (GetWorkspaceSetting env_bob store_idp_other_secret)"
    using t1 a2 sc by blast
  have e2: "map secret_of (v1_IdentityProviders w2) = [Some ''other'', Some ''top-secret'']"
    using t2 a3 st k w2 sec by simp
  show ?thesis
    using a1 a2 a3 w0 w1 w2 d sc st k sec e0 e1 e2 eq t0 by simp
qed

end
